theory Spec2Isabelle
  imports Complex_Main
begin

section \<open>Documents and the document store\<close>

text \<open>
  ObjectIds are compared with \<open>equals\<close> only, so any type with equality models them.
  A JavaScript Number that the routes validate as an integer is an \<open>int\<close>; the average
  rating is a quotient and is kept as an exact rational (the rounding of IEEE doubles is
  not modelled). An absent (\<open>undefined\<close>) field is \<open>None\<close>. The records carry the fields
  of the schemas that the handlers and hooks below read or write; \<open>recipeCount\<close> is
  \<open>stats.recipeCount\<close>, and \<open>modifiedPaths\<close> is the change tracking of a document in hand,
  which \<open>isModified\<close> consults. The validation that a save of a category runs before its
  hooks is modelled with the category model. The validators of the routes and of the
  recipe schema are not modelled: the recipe handlers, hooks and saves are taken from
  the point where validation has passed.
\<close>

type_synonym oid = nat

record rating_entry =
  user :: oid
  rating :: int
  review :: "string option"

record recipe_doc =
  recipe_id :: oid
  title :: string
  prepTime :: int
  cookTime :: int
  totalTime :: "int option"
  category :: oid
  cuisine :: string
  difficulty :: string
  dietaryRestrictions :: "string list"
  ratings :: "rating_entry list"
  averageRating :: rat
  totalRatings :: nat
  bookmarks :: "oid list"
  author :: oid
  status :: string
  visibility :: string
  views :: nat
  createdAt :: int

record category_doc =
  category_id :: oid
  name :: string
  slug :: "string option"
  code :: string
  parent :: "oid option"
  children :: "oid list"
  level :: int
  path :: "string option"
  recipeCount :: int
  modifiedPaths :: "string list"

record user_doc =
  user_id :: oid
  role :: string
  accountStatus :: string
  lockUntil :: "nat option"
  passwordChangedAt :: "nat option"

record db =
  recipes :: "recipe_doc list"
  categories :: "category_doc list"
  users :: "user_doc list"

text \<open>\<open>new AppError(message, statusCode)\<close>, handed to \<open>next\<close>.\<close>

datatype AppError = AppError string nat

fun message :: "AppError \<Rightarrow> string" where
  "message (AppError m c) = m"

fun statusCode :: "AppError \<Rightarrow> nat" where
  "statusCode (AppError m c) = c"

definition findRecipeById :: "db \<Rightarrow> oid \<Rightarrow> recipe_doc option" where
  "findRecipeById d i = find (\<lambda>r. recipe_id r = i) (recipes d)"

definition findCategoryById :: "db \<Rightarrow> oid \<Rightarrow> category_doc option" where
  "findCategoryById d i = find (\<lambda>c. category_id c = i) (categories d)"

definition findUserById :: "db \<Rightarrow> oid \<Rightarrow> user_doc option" where
  "findUserById d i = find (\<lambda>u. user_id u = i) (users d)"

text \<open>Writing a document back: the stored document with the same id is replaced, a new
  document is appended to its collection.\<close>

definition storeRecipe :: "db \<Rightarrow> recipe_doc \<Rightarrow> db" where
  "storeRecipe d r =
     (if list_ex (\<lambda>x. recipe_id x = recipe_id r) (recipes d)
      then d\<lparr>recipes := map (\<lambda>x. if recipe_id x = recipe_id r then r else x) (recipes d)\<rparr>
      else d\<lparr>recipes := recipes d @ [r]\<rparr>)"

definition storeCategory :: "db \<Rightarrow> category_doc \<Rightarrow> db" where
  "storeCategory d c =
     (if list_ex (\<lambda>x. category_id x = category_id c) (categories d)
      then d\<lparr>categories := map (\<lambda>x. if category_id x = category_id c then c else x) (categories d)\<rparr>
      else d\<lparr>categories := categories d @ [c]\<rparr>)"

section \<open>Recipe model: save hooks and instance methods\<close>

text \<open>\<open>recipeSchema.pre('save')\<close>, first hook: \<open>this.totalTime = this.prepTime + this.cookTime\<close>.\<close>

definition totalTimeHook :: "recipe_doc \<Rightarrow> recipe_doc" where
  "totalTimeHook r = r\<lparr>totalTime := Some (prepTime r + cookTime r)\<rparr>"

text \<open>\<open>Math.round\<close> rounds to the nearest integer, a half upwards.\<close>

definition mathRound :: "rat \<Rightarrow> int" where
  "mathRound x = \<lfloor>x + 1 / 2\<rfloor>"

text \<open>\<open>this.ratings.reduce((sum, rating) => sum + rating.rating, 0)\<close>.\<close>

definition totalRating :: "rating_entry list \<Rightarrow> int" where
  "totalRating rs = foldl (\<lambda>sum e. sum + rating e) 0 rs"

text \<open>Second hook: the two aggregate fields are written only when the ratings list is
  not empty.\<close>

definition averageRatingHook :: "recipe_doc \<Rightarrow> recipe_doc" where
  "averageRatingHook r =
     (if length (ratings r) > 0
      then r\<lparr>averageRating :=
               of_int (mathRound ((of_int (totalRating (ratings r)) / of_nat (length (ratings r))) * 10)) / 10,
             totalRatings := length (ratings r)\<rparr>
      else r)"

text \<open>The hooks run in the order of their registration.\<close>

definition recipePreSave :: "recipe_doc \<Rightarrow> recipe_doc" where
  "recipePreSave r = averageRatingHook (totalTimeHook r)"

text \<open>\<open>doc.save()\<close>, from the point where the built-in validation of the document has
  passed: the hooks run, the result is written to the collection; the document in hand
  carries the hooks' values afterwards.\<close>

definition saveRecipe :: "db \<Rightarrow> recipe_doc \<Rightarrow> db \<times> recipe_doc" where
  "saveRecipe d r = (let r' = recipePreSave r in (storeRecipe d r', r'))"

text \<open>\<open>recipeSchema.methods.addRating\<close>: the entries of this user are filtered out, the
  new entry is pushed, the document is saved.\<close>

definition pushRating :: "recipe_doc \<Rightarrow> oid \<Rightarrow> int \<Rightarrow> string option \<Rightarrow> recipe_doc" where
  "pushRating r userId v rv =
     r\<lparr>ratings := filter (\<lambda>e. \<not> (user e = userId)) (ratings r)
                     @ [\<lparr>user = userId, rating = v, review = rv\<rparr>]\<rparr>"

definition addRating :: "db \<Rightarrow> recipe_doc \<Rightarrow> oid \<Rightarrow> int \<Rightarrow> string option \<Rightarrow> db \<times> recipe_doc" where
  "addRating d r userId v rv = saveRecipe d (pushRating r userId v rv)"

section \<open>Recipe controller: rating and bookmarking\<close>

record rate_response =
  resp_averageRating :: rat
  resp_totalRatings :: nat

definition rateRecipe ::
  "db \<Rightarrow> oid \<Rightarrow> user_doc \<Rightarrow> int \<Rightarrow> string option \<Rightarrow> db \<times> (AppError + rate_response)" where
  "rateRecipe d i u v rv =
     (case findRecipeById d i of
        None \<Rightarrow> (d, Inl (AppError ''No recipe found with that ID'' 404))
      | Some r \<Rightarrow>
          if author r = user_id u
          then (d, Inl (AppError ''You cannot rate your own recipe'' 400))
          else (let (d', r') = addRating d r (user_id u) v rv
                in (d', Inr \<lparr>resp_averageRating = averageRating r',
                             resp_totalRatings = totalRatings r'\<rparr>)))"

record bookmark_response =
  bookmarked :: bool
  bookmarkCount :: nat

text \<open>Mongoose arrays: \<open>includes\<close> compares ids, \<open>pull\<close> removes every occurrence of the id,
  \<open>push\<close> appends it.\<close>

definition includesId :: "oid list \<Rightarrow> oid \<Rightarrow> bool" where
  "includesId bs u = list_ex (\<lambda>b. b = u) bs"

definition pull :: "oid list \<Rightarrow> oid \<Rightarrow> oid list" where
  "pull bs u = filter (\<lambda>b. b \<noteq> u) bs"

definition push :: "oid list \<Rightarrow> oid \<Rightarrow> oid list" where
  "push bs u = bs @ [u]"

definition toggleBookmark ::
  "db \<Rightarrow> oid \<Rightarrow> user_doc \<Rightarrow> db \<times> (AppError + bookmark_response)" where
  "toggleBookmark d i u =
     (case findRecipeById d i of
        None \<Rightarrow> (d, Inl (AppError ''No recipe found with that ID'' 404))
      | Some r \<Rightarrow>
          (let isBookmarked = includesId (bookmarks r) (user_id u);
               r1 = (if isBookmarked
                     then r\<lparr>bookmarks := pull (bookmarks r) (user_id u)\<rparr>
                     else r\<lparr>bookmarks := push (bookmarks r) (user_id u)\<rparr>);
               (d', r') = saveRecipe d r1
           in (d', Inr \<lparr>bookmarked = \<not> isBookmarked,
                        bookmarkCount = length (bookmarks r')\<rparr>)))"

text \<open>A sequence of rating requests against one recipe, each through \<open>rateRecipe\<close>; a
  rejected request leaves the store as it was.\<close>

fun rateAll :: "db \<Rightarrow> oid \<Rightarrow> (user_doc \<times> int \<times> string option) list \<Rightarrow> db" where
  "rateAll d i [] = d"
| "rateAll d i ((u, v, rv) # rest) = rateAll (fst (rateRecipe d i u v rv)) i rest"

section \<open>Recipe controller: update\<close>

text \<open>The fields of \<open>req.body\<close> that the update writes; an absent key is \<open>None\<close>.\<close>

record recipe_body =
  b_title :: "string option"
  b_prepTime :: "int option"
  b_cookTime :: "int option"
  b_totalTime :: "int option"
  b_category :: "oid option"
  b_status :: "string option"
  b_visibility :: "string option"

definition orElse :: "'a option \<Rightarrow> 'a \<Rightarrow> 'a" where
  "orElse x dflt = (case x of None \<Rightarrow> dflt | Some v \<Rightarrow> v)"

text \<open>\<open>Recipe.findByIdAndUpdate(id, req.body, {new: true, runValidators: true})\<close>: the
  fields named in the body are set on the stored document and the updated document is
  returned. It is an update operation of the store, not \<open>save\<close>: no \<open>pre('save')\<close> hook runs.\<close>

definition applyRecipeBody :: "recipe_doc \<Rightarrow> recipe_body \<Rightarrow> recipe_doc" where
  "applyRecipeBody r b =
     r\<lparr>title := orElse (b_title b) (title r),
       prepTime := orElse (b_prepTime b) (prepTime r),
       cookTime := orElse (b_cookTime b) (cookTime r),
       totalTime := (case b_totalTime b of None \<Rightarrow> totalTime r | Some t \<Rightarrow> Some t),
       category := orElse (b_category b) (category r),
       status := orElse (b_status b) (status r),
       visibility := orElse (b_visibility b) (visibility r)\<rparr>"

definition recipeFindByIdAndUpdate :: "db \<Rightarrow> oid \<Rightarrow> recipe_body \<Rightarrow> db \<times> recipe_doc option" where
  "recipeFindByIdAndUpdate d i b =
     (case findRecipeById d i of
        None \<Rightarrow> (d, None)
      | Some r \<Rightarrow> (let r' = applyRecipeBody r b in (storeRecipe d r', Some r')))"

text \<open>\<open>Category.findByIdAndUpdate(id, {$inc: {'stats.recipeCount': n}})\<close>.\<close>

definition incRecipeCount :: "db \<Rightarrow> oid \<Rightarrow> int \<Rightarrow> db" where
  "incRecipeCount d i n =
     d\<lparr>categories := map (\<lambda>c. if category_id c = i then c\<lparr>recipeCount := recipeCount c + n\<rparr> else c)
                           (categories d)\<rparr>"

definition updateRecipe ::
  "db \<Rightarrow> oid \<Rightarrow> user_doc \<Rightarrow> recipe_body \<Rightarrow> db \<times> (AppError + recipe_doc option)" where
  "updateRecipe d i u b =
     (case findRecipeById d i of
        None \<Rightarrow> (d, Inl (AppError ''No recipe found with that ID'' 404))
      | Some recipe \<Rightarrow>
          if author recipe \<noteq> user_id u \<and> role u \<noteq> ''admin''
          then (d, Inl (AppError ''You can only update your own recipes'' 403))
          else
            (case (if b_category b \<noteq> None \<and> b_category b \<noteq> Some (category recipe)
                   then (case findCategoryById d (the (b_category b)) of
                           None \<Rightarrow> Inl (AppError ''Invalid category ID'' 400)
                         | Some c \<Rightarrow>
                             Inr (incRecipeCount (incRecipeCount d (category recipe) (- 1))
                                    (the (b_category b)) 1))
                   else Inr d) of
               Inl e \<Rightarrow> (d, Inl e)
             | Inr d1 \<Rightarrow>
                 (let (d2, updatedRecipe) = recipeFindByIdAndUpdate d1 i b
                  in (d2, Inr updatedRecipe))))"

text \<open>\<open>createRecipe\<close>. The argument \<open>doc\<close> is the document that \<open>Recipe.create\<close> builds from
  \<open>req.body\<close> (defaults applied, fresh \<open>_id\<close>); the author is set from the caller, the
  document is saved and the category's counter is incremented.\<close>

definition createRecipe ::
  "db \<Rightarrow> user_doc \<Rightarrow> recipe_doc \<Rightarrow> db \<times> (AppError + recipe_doc)" where
  "createRecipe d u doc =
     (case findCategoryById d (category doc) of
        None \<Rightarrow> (d, Inl (AppError ''Invalid category ID'' 400))
      | Some c \<Rightarrow>
          (let (d1, newRecipe) = saveRecipe d (doc\<lparr>author := user_id u\<rparr>)
           in (incRecipeCount d1 (category newRecipe) 1, Inr newRecipe)))"

section \<open>Strings\<close>

text \<open>Strings are lists of 8-bit characters; the whitespace class \<open>\s\<close> and the case
  mappings are the ASCII ones (the route validator of category names admits letters,
  digits, whitespace, hyphen, ampersand and apostrophe).\<close>

definition isSpace :: "char \<Rightarrow> bool" where
  "isSpace c = (c \<in> set [CHR '' '', CHR 0x09, CHR 0x0A, CHR 0x0B, CHR 0x0C, CHR 0x0D])"

definition isLowerAlnum :: "char \<Rightarrow> bool" where
  "isLowerAlnum c =
     (let n = (of_char c :: nat) in (97 \<le> n \<and> n \<le> 122) \<or> (48 \<le> n \<and> n \<le> 57))"

definition toLowerChar :: "char \<Rightarrow> char" where
  "toLowerChar c =
     (let n = (of_char c :: nat) in if 65 \<le> n \<and> n \<le> 90 then char_of (n + 32) else c)"

definition toUpperChar :: "char \<Rightarrow> char" where
  "toUpperChar c =
     (let n = (of_char c :: nat) in if 97 \<le> n \<and> n \<le> 122 then char_of (n - 32) else c)"

definition toLowerCase :: "string \<Rightarrow> string" where
  "toLowerCase s = map toLowerChar s"

definition toUpperCase :: "string \<Rightarrow> string" where
  "toUpperCase s = map toUpperChar s"

text \<open>\<open>s.replace(/X+/g, '-')\<close> for a character class \<open>X\<close>: scanning from the left, every
  maximal run of characters of the class is replaced by one hyphen.\<close>

function replaceRuns :: "(char \<Rightarrow> bool) \<Rightarrow> string \<Rightarrow> string" where
  "replaceRuns P [] = []"
| "replaceRuns P (c # cs) =
     (if P c then CHR ''-'' # replaceRuns P (dropWhile P cs) else c # replaceRuns P cs)"
  by pat_completeness auto
termination
  by (relation "measure (\<lambda>(P, s). length s)") (auto simp: le_imp_less_Suc length_dropWhile_le)

text \<open>\<open>String.prototype.trim\<close> takes no argument and strips whitespace at both ends.\<close>

definition trim :: "string \<Rightarrow> string" where
  "trim s = rev (dropWhile isSpace (rev (dropWhile isSpace s)))"

text \<open>\<open>s.split(sep)\<close> for a separator of one character.\<close>

fun splitOn :: "char \<Rightarrow> string \<Rightarrow> string list" where
  "splitOn sep [] = [[]]"
| "splitOn sep (c # cs) =
     (if c = sep then [] # splitOn sep cs
      else (case splitOn sep cs of [] \<Rightarrow> [[c]] | w # ws \<Rightarrow> (c # w) # ws))"

definition digitChar :: "nat \<Rightarrow> char" where
  "digitChar n = char_of (48 + n)"

text \<open>The decimal digits of a number, as a template literal prints it.\<close>

fun showNat :: "nat \<Rightarrow> string" where
  "showNat n = (if n < 10 then [digitChar n] else showNat (n div 10) @ [digitChar (n mod 10)])"

declare showNat.simps [simp del]

definition isDigit :: "char \<Rightarrow> bool" where
  "isDigit c = (let n = (of_char c :: nat) in 48 \<le> n \<and> n \<le> 57)"

text \<open>JavaScript truthiness of a string that may be absent.\<close>

definition truthy :: "string option \<Rightarrow> bool" where
  "truthy s = (case s of None \<Rightarrow> False | Some v \<Rightarrow> v \<noteq> [])"

text \<open>A value inside a template literal: \<open>undefined\<close> prints as the word.\<close>

definition template :: "string option \<Rightarrow> string" where
  "template s = (case s of None \<Rightarrow> ''undefined'' | Some v \<Rightarrow> v)"

section \<open>Category model: save hooks\<close>

definition isModified :: "category_doc \<Rightarrow> string \<Rightarrow> bool" where
  "isModified c p = (p \<in> set (modifiedPaths c))"

text \<open>The slug that the first hook derives from the name.\<close>

definition generateSlug :: "string \<Rightarrow> string" where
  "generateSlug n =
     trim (replaceRuns (\<lambda>c. c = CHR ''-'')
            (replaceRuns isSpace
              (filter (\<lambda>c. isLowerAlnum c \<or> isSpace c \<or> c = CHR ''-'') (toLowerCase n))))"

text \<open>\<open>categorySchema.pre('save')\<close>, first hook.\<close>

definition slugHook :: "category_doc \<Rightarrow> category_doc" where
  "slugHook c =
     (if isModified c ''name'' \<and> \<not> truthy (slug c)
      then c\<lparr>slug := Some (generateSlug (name c))\<rparr>
      else c)"

text \<open>Second hook: level and path, from the parent found in the store.\<close>

definition pathHook :: "db \<Rightarrow> category_doc \<Rightarrow> category_doc" where
  "pathHook d c =
     (if isModified c ''parent''
      then (case parent c of
              Some p \<Rightarrow>
                (case findCategoryById d p of
                   Some par \<Rightarrow>
                     c\<lparr>level := level par + 1,
                       path := (if truthy (path par)
                                then Some (template (path par) @ ''/'' @ template (slug c))
                                else slug c)\<rparr>
                 | None \<Rightarrow> c)
            | None \<Rightarrow> c\<lparr>level := 0, path := slug c\<rparr>)
      else c)"

text \<open>\<open>categorySchema.post('save')\<close>: \<open>$addToSet\<close> of the document's id to the children of
  its parent.\<close>

definition addToSet :: "oid list \<Rightarrow> oid \<Rightarrow> oid list" where
  "addToSet xs i = (if i \<in> set xs then xs else xs @ [i])"

definition childrenHook :: "db \<Rightarrow> category_doc \<Rightarrow> db" where
  "childrenHook d doc =
     (case parent doc of
        Some p \<Rightarrow>
          d\<lparr>categories := map (\<lambda>c. if category_id c = p
                                     then c\<lparr>children := addToSet (children c) (category_id doc)\<rparr>
                                     else c) (categories d)\<rparr>
      | None \<Rightarrow> d)"

text \<open>The two \<open>pre('save')\<close> hooks in the order of their registration.\<close>

definition categoryPreSave :: "db \<Rightarrow> category_doc \<Rightarrow> category_doc" where
  "categoryPreSave d c = pathHook d (slugHook c)"

text \<open>The validators of the category schema on \<open>name\<close>, \<open>slug\<close>, \<open>code\<close> and \<open>level\<close>, with
  their messages. A required path is validated on every save, \<open>level\<close> when it is marked
  modified (its default, 0, is valid). The pattern of \<open>slug\<close> is \<open>/^[a-z0-9-]+$/\<close>.\<close>

definition matchesSlugPattern :: "string \<Rightarrow> bool" where
  "matchesSlugPattern s = (s \<noteq> [] \<and> list_all (\<lambda>c. isLowerAlnum c \<or> c = CHR ''-'') s)"

definition validationErrors :: "category_doc \<Rightarrow> string list" where
  "validationErrors c =
     (if name c = [] then [''Category name is required'']
      else (if length (name c) < 2 then [''Category name must be at least 2 characters long''] else [])
         @ (if length (name c) > 50 then [''Category name cannot exceed 50 characters''] else []))
   @ (if \<not> truthy (slug c) then [''Category slug is required'']
      else if \<not> matchesSlugPattern (the (slug c))
      then [''Slug can only contain lowercase letters, numbers, and hyphens'']
      else [])
   @ (if code c = [] then [''Category code is required'']
      else (if length (code c) < 2 then [''Category code must be at least 2 characters long''] else [])
         @ (if length (code c) > 10 then [''Category code cannot exceed 10 characters''] else []))
   @ (if isModified c ''level''
      then (if level c < 0 then [''Level cannot be negative''] else [])
         @ (if level c > 5 then [''Maximum category depth is 5 levels''] else [])
      else [])"

datatype save_error = ValidationError "string list"

text \<open>\<open>doc.save()\<close> of a category. Mongoose validates the document first, in a built-in
  \<open>pre('save')\<close> hook that precedes the hooks of the schema, and a failed validation ends
  the save with nothing written. Then come the two hooks of the schema, the write and the
  \<open>post\<close> hook. A stored document has no modified path.\<close>

definition saveCategory :: "db \<Rightarrow> category_doc \<Rightarrow> db \<times> (save_error + category_doc)" where
  "saveCategory d c =
     (if validationErrors c \<noteq> []
      then (d, Inl (ValidationError (validationErrors c)))
      else (let c' = categoryPreSave d c;
                d1 = storeCategory d (c'\<lparr>modifiedPaths := []\<rparr>)
            in (childrenHook d1 c', Inr c')))"

section \<open>Category controller: update and delete\<close>

record category_body =
  cb_name :: "string option"
  cb_slug :: "string option"
  cb_code :: "string option"
  cb_parent :: "oid option option"

text \<open>The document that \<open>Category.create\<close> builds from the body: the setters of the
  schema applied (\<open>trim\<close>, \<open>lowercase\<close> on the slug, \<open>uppercase\<close> on the code), the
  defaults for what the body leaves out, the paths given in the body marked modified.
  \<open>newId\<close> is the fresh \<open>_id\<close>; an absent name or code is the empty string.\<close>

definition newCategory :: "oid \<Rightarrow> category_body \<Rightarrow> category_doc" where
  "newCategory newId b =
     \<lparr>category_id = newId,
      name = trim (orElse (cb_name b) []),
      slug = map_option (\<lambda>s. trim (toLowerCase s)) (cb_slug b),
      code = trim (toUpperCase (orElse (cb_code b) [])),
      parent = orElse (cb_parent b) None,
      children = [], level = 0, path = None, recipeCount = 0,
      modifiedPaths = (if cb_name b \<noteq> None then [''name''] else [])
                    @ (if cb_slug b \<noteq> None then [''slug''] else [])
                    @ (if cb_code b \<noteq> None then [''code''] else [])
                    @ (if cb_parent b \<noteq> None then [''parent''] else [])\<rparr>"

text \<open>What a category handler hands to \<open>next\<close>: an \<open>AppError\<close> of its own, or the error
  that a save has thrown.\<close>

datatype category_error = Operational AppError | Thrown save_error

text \<open>\<open>createCategory\<close>: the check for a category with the same code or slug (a key
  that the body leaves out matches a stored value that is absent), then
  \<open>Category.create\<close>.\<close>

definition createCategory ::
  "db \<Rightarrow> user_doc \<Rightarrow> category_body \<Rightarrow> oid \<Rightarrow> db \<times> (category_error + category_doc)" where
  "createCategory d u b newId =
     (case find (\<lambda>c. Some (code c) = map_option toUpperCase (cb_code b) \<or> slug c = cb_slug b)
             (categories d) of
        Some existingCategory \<Rightarrow>
          (d, Inl (Operational (AppError (''Category with this ''
                     @ (if Some (code existingCategory) = map_option toUpperCase (cb_code b)
                        then ''code'' else ''slug'')
                     @ '' already exists'') 409)))
      | None \<Rightarrow>
          (case saveCategory d (newCategory newId b) of
             (d1, Inl e) \<Rightarrow> (d1, Inl (Thrown e))
           | (d1, Inr newCat) \<Rightarrow> (d1, Inr newCat)))"

definition applyCategoryBody :: "category_doc \<Rightarrow> category_body \<Rightarrow> category_doc" where
  "applyCategoryBody c b =
     c\<lparr>name := orElse (cb_name b) (name c),
       slug := (case cb_slug b of None \<Rightarrow> slug c | Some s \<Rightarrow> Some s),
       code := orElse (cb_code b) (code c),
       parent := orElse (cb_parent b) (parent c)\<rparr>"

text \<open>\<open>Category.findByIdAndUpdate(id, req.body, {new: true, runValidators: true})\<close>: an
  update operation of the store; no \<open>save\<close> hook runs.\<close>

definition categoryFindByIdAndUpdate ::
  "db \<Rightarrow> oid \<Rightarrow> category_body \<Rightarrow> db \<times> category_doc option" where
  "categoryFindByIdAndUpdate d i b =
     (case findCategoryById d i of
        None \<Rightarrow> (d, None)
      | Some c \<Rightarrow> (let c' = applyCategoryBody c b in (storeCategory d c', Some c')))"

text \<open>The duplicate check of \<open>updateCategory\<close>: another category that matches every
  condition put into \<open>duplicateQuery\<close>.\<close>

definition findDuplicate :: "db \<Rightarrow> oid \<Rightarrow> category_body \<Rightarrow> category_doc option" where
  "findDuplicate d i b =
     find (\<lambda>c. category_id c \<noteq> i
              \<and> (if truthy (cb_code b) then code c = toUpperCase (the (cb_code b)) else True)
              \<and> (if truthy (cb_slug b) then slug c = cb_slug b else True))
          (categories d)"

definition updateCategory ::
  "db \<Rightarrow> oid \<Rightarrow> user_doc \<Rightarrow> category_body \<Rightarrow> db \<times> (AppError + category_doc option)" where
  "updateCategory d i u b =
     (case findCategoryById d i of
        None \<Rightarrow> (d, Inl (AppError ''No category found with that ID'' 404))
      | Some cat \<Rightarrow>
          (case (if truthy (cb_code b) \<or> truthy (cb_slug b) then findDuplicate d i b else None) of
             Some existingCategory \<Rightarrow>
               (d, Inl (AppError (''Category with this ''
                          @ (if Some (code existingCategory) = map_option toUpperCase (cb_code b)
                             then ''code'' else ''slug'')
                          @ '' already exists'') 409))
           | None \<Rightarrow>
               (let (d1, updatedCategory) = categoryFindByIdAndUpdate d i b
                in (d1, Inr updatedCategory))))"

text \<open>\<open>Recipe.countDocuments({category: id})\<close>.\<close>

definition countRecipesOfCategory :: "db \<Rightarrow> oid \<Rightarrow> nat" where
  "countRecipesOfCategory d i = length (filter (\<lambda>r. category r = i) (recipes d))"

definition pullChild :: "db \<Rightarrow> oid \<Rightarrow> oid \<Rightarrow> db" where
  "pullChild d p i =
     d\<lparr>categories := map (\<lambda>c. if category_id c = p then c\<lparr>children := pull (children c) i\<rparr> else c)
                           (categories d)\<rparr>"

definition categoryFindByIdAndDelete :: "db \<Rightarrow> oid \<Rightarrow> db" where
  "categoryFindByIdAndDelete d i =
     (case findCategoryById d i of
        None \<Rightarrow> d
      | Some c \<Rightarrow> d\<lparr>categories := remove1 c (categories d)\<rparr>)"

text \<open>\<open>deleteCategory\<close>; \<open>Inr ()\<close> is the 204 response.\<close>

definition deleteCategory :: "db \<Rightarrow> oid \<Rightarrow> user_doc \<Rightarrow> db \<times> (AppError + unit)" where
  "deleteCategory d i u =
     (case findCategoryById d i of
        None \<Rightarrow> (d, Inl (AppError ''No category found with that ID'' 404))
      | Some cat \<Rightarrow>
          (let recipeCount = countRecipesOfCategory d i in
           if recipeCount > 0
           then (d, Inl (AppError (''Cannot delete category with '' @ showNat recipeCount
                          @ '' recipes. Please move or delete the recipes first.'') 400))
           else if length (children cat) > 0
           then (d, Inl (AppError
                  ''Cannot delete category with subcategories. Please delete or move the subcategories first.''
                  400))
           else
             (let d1 = (case parent cat of
                          Some p \<Rightarrow> pullChild d p (category_id cat)
                        | None \<Rightarrow> d)
              in (categoryFindByIdAndDelete d1 i, Inr ()))))"

section \<open>Recipe listing\<close>

text \<open>Values of \<open>req.query\<close> (strings, arrays and nested objects, as the query parser
  builds them) and of filter documents (numbers as well; \<open>JNaN\<close> is the number NaN).
  An object is the list of its entries in insertion order.\<close>

datatype json = JStr string | JNum int | JNaN | JArr "json list" | JObj "(string \<times> json) list"

type_synonym jobject = "(string \<times> json) list"

definition isWordChar :: "char \<Rightarrow> bool" where
  "isWordChar c =
     (let n = (of_char c :: nat)
      in (97 \<le> n \<and> n \<le> 122) \<or> (65 \<le> n \<and> n \<le> 90) \<or> (48 \<le> n \<and> n \<le> 57) \<or> n = 95)"

text \<open>\<open>str.replace(/\b(gte|gt|lte|lt)\b/g, match => `$${match}`)\<close>: a maximal run of word
  characters that is one of the four words gets a dollar sign in front. \<open>w\<close> is the run
  read so far.\<close>

definition flushWord :: "string \<Rightarrow> string" where
  "flushWord w = (if w \<in> set [''gte'', ''gt'', ''lte'', ''lt''] then CHR ''$'' # w else w)"

fun prefixOps :: "string \<Rightarrow> string \<Rightarrow> string" where
  "prefixOps w [] = flushWord w"
| "prefixOps w (c # cs) =
     (if isWordChar c then prefixOps (w @ [c]) cs else flushWord w @ c # prefixOps [] cs)"

text \<open>\<open>JSON.parse(JSON.stringify(queryObj).replace(...))\<close>, on the tree: the replacement
  reaches every key and every string value (keys and values are taken free of the
  characters that \<open>JSON.stringify\<close> escapes).\<close>

primrec rewriteJson :: "json \<Rightarrow> json" where
  "rewriteJson (JStr s) = JStr (prefixOps [] s)"
| "rewriteJson (JNum n) = JNum n"
| "rewriteJson JNaN = JNaN"
| "rewriteJson (JArr xs) = JArr (map rewriteJson xs)"
| "rewriteJson (JObj kvs) = JObj (map (map_prod (prefixOps []) rewriteJson) kvs)"

definition rewriteObj :: "jobject \<Rightarrow> jobject" where
  "rewriteObj kvs = map (map_prod (prefixOps []) rewriteJson) kvs"

text \<open>\<open>obj[k] = v\<close>.\<close>

fun setKey :: "jobject \<Rightarrow> string \<Rightarrow> json \<Rightarrow> jobject" where
  "setKey [] k v = [(k, v)]"
| "setKey ((k', v') # kvs) k v = (if k' = k then (k, v) # kvs else (k', v') # setKey kvs k v)"

text \<open>A chained \<open>query.find(conds)\<close> merges \<open>conds\<close> into the conditions of the query: a
  key that the query does not have yet is added; where both sides hold an object the two
  are merged key by key; otherwise the later value replaces the earlier one.\<close>

fun mergeObj :: "jobject \<Rightarrow> jobject \<Rightarrow> jobject" where
  "mergeObj to [] = to"
| "mergeObj to ((k, v) # rest) =
     mergeObj
       (setKey to k
          (case v of
             JObj f \<Rightarrow> (case map_of to k of
                          None \<Rightarrow> v
                        | Some (JObj t) \<Rightarrow> JObj (mergeObj t f)
                        | Some _ \<Rightarrow> JObj (mergeObj [] f))
           | _ \<Rightarrow> v))
       rest"

text \<open>Whether a document matches a filter: every top-level entry of the filter has to
  hold. A string under \<open>status\<close>, \<open>visibility\<close>, \<open>cuisine\<close> or \<open>difficulty\<close> is an equality on
  that field; what any other entry means (operators, text search, other fields) is the
  document store's business and is the parameter \<open>ext\<close>.\<close>

definition matchKey :: "(string \<Rightarrow> json \<Rightarrow> recipe_doc \<Rightarrow> bool) \<Rightarrow> string \<Rightarrow> json \<Rightarrow> recipe_doc \<Rightarrow> bool" where
  "matchKey ext k v r =
     (case v of
        JStr s \<Rightarrow>
          (if k = ''status'' then status r = s
           else if k = ''visibility'' then visibility r = s
           else if k = ''cuisine'' then cuisine r = s
           else if k = ''difficulty'' then difficulty r = s
           else ext k v r)
      | _ \<Rightarrow> ext k v r)"

definition matchesFilter :: "(string \<Rightarrow> json \<Rightarrow> recipe_doc \<Rightarrow> bool) \<Rightarrow> jobject \<Rightarrow> recipe_doc \<Rightarrow> bool" where
  "matchesFilter ext conds r = list_all (\<lambda>kv. matchKey ext (fst kv) (snd kv) r) conds"

text \<open>\<open>Recipe.countDocuments(filter)\<close>.\<close>

definition countDocuments :: "(string \<Rightarrow> json \<Rightarrow> recipe_doc \<Rightarrow> bool) \<Rightarrow> db \<Rightarrow> jobject \<Rightarrow> nat" where
  "countDocuments ext d conds = length (filter (matchesFilter ext conds) (recipes d))"

text \<open>Truthiness of a query parameter.\<close>

definition truthyParam :: "json option \<Rightarrow> bool" where
  "truthyParam p =
     (case p of None \<Rightarrow> False | Some (JStr s) \<Rightarrow> s \<noteq> [] | Some (JNum n) \<Rightarrow> n \<noteq> 0
      | Some JNaN \<Rightarrow> False | Some _ \<Rightarrow> True)"

fun intercalate :: "string \<Rightarrow> string list \<Rightarrow> string" where
  "intercalate sep [] = []"
| "intercalate sep [w] = w"
| "intercalate sep (w # ws) = w @ sep @ intercalate sep ws"

definition showInt :: "int \<Rightarrow> string" where
  "showInt n = (if n < 0 then CHR ''-'' # showNat (nat (- n)) else showNat (nat n))"

text \<open>\<open>String(value)\<close>, the conversion that \<open>parseInt\<close> applies to its argument.\<close>

primrec toStringJs :: "json \<Rightarrow> string" where
  "toStringJs (JStr s) = s"
| "toStringJs (JNum n) = showInt n"
| "toStringJs JNaN = ''NaN''"
| "toStringJs (JArr xs) = intercalate '','' (map toStringJs xs)"
| "toStringJs (JObj kvs) = ''[object Object]''"

definition digitValue :: "char \<Rightarrow> nat option" where
  "digitValue c =
     (let n = (of_char c :: nat)
      in if 48 \<le> n \<and> n \<le> 57 then Some (n - 48)
         else if 97 \<le> n \<and> n \<le> 122 then Some (n - 87)
         else if 65 \<le> n \<and> n \<le> 90 then Some (n - 55)
         else None)"

definition isDigitOf :: "nat \<Rightarrow> char \<Rightarrow> bool" where
  "isDigitOf radix c = (case digitValue c of None \<Rightarrow> False | Some v \<Rightarrow> v < radix)"

definition digitsValue :: "nat \<Rightarrow> string \<Rightarrow> nat" where
  "digitsValue radix ds = foldl (\<lambda>acc c. acc * radix + the (digitValue c)) 0 ds"

text \<open>\<open>parseInt(string, radix)\<close> for radix 10 or no radix (\<open>None\<close>, where a prefix \<open>0x\<close>
  selects 16): leading whitespace, a sign, then the longest run of digits; \<open>None\<close> is NaN.
  Integers are exact.\<close>

definition parseInt :: "string \<Rightarrow> nat option \<Rightarrow> int option" where
  "parseInt s radix =
     (let s1 = dropWhile isSpace s;
          neg = (case s1 of c # _ \<Rightarrow> c = CHR ''-'' | [] \<Rightarrow> False);
          s2 = (case s1 of c # cs \<Rightarrow> if c = CHR ''-'' \<or> c = CHR ''+'' then cs else s1 | [] \<Rightarrow> s1);
          hex = (radix = None \<and> (take 2 s2 = ''0x'' \<or> take 2 s2 = ''0X''));
          r = (if hex then 16 else 10);
          s3 = (if hex then drop 2 s2 else s2);
          ds = takeWhile (isDigitOf r) s3
      in if ds = [] then None
         else Some (if neg then - int (digitsValue r ds) else int (digitsValue r ds)))"

text \<open>\<open>parseInt(param, 10) || dflt\<close>: NaN and zero are falsy.\<close>

definition parseIntOr :: "json option \<Rightarrow> int \<Rightarrow> int" where
  "parseIntOr p dflt =
     (case p of
        None \<Rightarrow> dflt
      | Some v \<Rightarrow> (case parseInt (toStringJs v) (Some 10) of
                    None \<Rightarrow> dflt
                  | Some n \<Rightarrow> if n = 0 then dflt else n))"

text \<open>Ordering. \<open>query.sort('a -b')\<close> orders by the listed fields, the first one most
  significant, a leading hyphen for descending. The numeric fields of the model are
  ordered; any other name leaves the order as it is.\<close>

definition sortValue :: "string \<Rightarrow> recipe_doc \<Rightarrow> rat" where
  "sortValue f r =
     (if f = ''createdAt'' then of_int (createdAt r)
      else if f = ''prepTime'' then of_int (prepTime r)
      else if f = ''cookTime'' then of_int (cookTime r)
      else if f = ''averageRating'' then averageRating r
      else if f = ''totalRatings'' then of_nat (totalRatings r)
      else if f = ''views'' then of_nat (views r)
      else 0)"

definition sortField :: "string \<Rightarrow> recipe_doc list \<Rightarrow> recipe_doc list" where
  "sortField f xs =
     (case f of
        c # g \<Rightarrow> if c = CHR ''-'' then sort_key (\<lambda>r. - sortValue g r) xs
                  else sort_key (sortValue f) xs
      | [] \<Rightarrow> xs)"

definition sortRecipes :: "string \<Rightarrow> recipe_doc list \<Rightarrow> recipe_doc list" where
  "sortRecipes sortBy xs = foldr sortField (splitOn CHR '' '' sortBy) xs"

datatype js_error = TypeError | CastError | StoreError

text \<open>\<open>param.split(',')\<close>: only a string has the method.\<close>

definition splitParam :: "json option \<Rightarrow> js_error + string list" where
  "splitParam p = (case p of Some (JStr s) \<Rightarrow> Inr (splitOn CHR '','' s) | _ \<Rightarrow> Inl TypeError)"

text \<open>The conditions that \<open>getAllRecipes\<close> accumulates on the query. Lines 20 to 28: the
  filter built from the query string.\<close>

definition excludedFields :: "string list" where
  "excludedFields = [''page'', ''sort'', ''limit'', ''fields'', ''search'']"

definition baseFilter :: "jobject \<Rightarrow> jobject" where
  "baseFilter q = rewriteObj (filter (\<lambda>kv. fst kv \<notin> set excludedFields) q)"

definition isAdmin :: "user_doc option \<Rightarrow> bool" where
  "isAdmin caller = (case caller of None \<Rightarrow> False | Some u \<Rightarrow> role u = ''admin'')"

text \<open>Lines 30 to 33: the visibility constraint for callers that are not admins.\<close>

definition visibilityFilter :: "user_doc option \<Rightarrow> jobject \<Rightarrow> jobject" where
  "visibilityFilter caller c =
     (if \<not> isAdmin caller
      then mergeObj c [(''status'', JStr ''published''), (''visibility'', JStr ''public'')]
      else c)"

text \<open>Lines 35 to 40: text search.\<close>

definition searchFilter :: "jobject \<Rightarrow> jobject \<Rightarrow> jobject" where
  "searchFilter q c =
     (if truthyParam (map_of q ''search'')
      then mergeObj c [(''$text'', JObj [(''$search'', the (map_of q ''search''))])]
      else c)"

text \<open>Lines 42 to 46: dietary restrictions.\<close>

definition dietaryFilter :: "jobject \<Rightarrow> jobject \<Rightarrow> js_error + jobject" where
  "dietaryFilter q c =
     (if truthyParam (map_of q ''dietary'')
      then (case splitParam (map_of q ''dietary'') of
              Inl e \<Rightarrow> Inl e
            | Inr ws \<Rightarrow>
                Inr (mergeObj c [(''dietaryRestrictions'', JObj [(''$in'', JArr (map JStr ws))])]))
      else Inr c)"

text \<open>Lines 48 to 56: cuisine and difficulty.\<close>

definition cuisineFilter :: "jobject \<Rightarrow> jobject \<Rightarrow> jobject" where
  "cuisineFilter q c =
     (if truthyParam (map_of q ''cuisine'')
      then mergeObj c [(''cuisine'', the (map_of q ''cuisine''))] else c)"

definition difficultyFilter :: "jobject \<Rightarrow> jobject \<Rightarrow> jobject" where
  "difficultyFilter q c =
     (if truthyParam (map_of q ''difficulty'')
      then mergeObj c [(''difficulty'', the (map_of q ''difficulty''))] else c)"

text \<open>Lines 58 to 61: preparation time; \<open>parseInt\<close> is called without a radix.\<close>

definition prepTimeFilter :: "jobject \<Rightarrow> jobject \<Rightarrow> jobject" where
  "prepTimeFilter q c =
     (if truthyParam (map_of q ''maxPrepTime'')
      then mergeObj c [(''prepTime'', JObj [(''$lte'',
             (case parseInt (toStringJs (the (map_of q ''maxPrepTime''))) None of
                None \<Rightarrow> JNaN | Some n \<Rightarrow> JNum n))])]
      else c)"

text \<open>Lines 63 to 66: category.\<close>

definition categoryFilter :: "jobject \<Rightarrow> jobject \<Rightarrow> jobject" where
  "categoryFilter q c =
     (if truthyParam (map_of q ''category'')
      then mergeObj c [(''category'', the (map_of q ''category''))] else c)"

text \<open>The conditions of the query after line 66, the blocks applied in their order.\<close>

definition listConditions :: "user_doc option \<Rightarrow> jobject \<Rightarrow> js_error + jobject" where
  "listConditions caller q =
     (case dietaryFilter q (searchFilter q (visibilityFilter caller (mergeObj [] (baseFilter q)))) of
        Inl e \<Rightarrow> Inl e
      | Inr c \<Rightarrow>
          Inr (categoryFilter q (prepTimeFilter q (difficultyFilter q (cuisineFilter q c)))))"

record pagination =
  pg_page :: int
  pg_limit :: int
  pg_total :: nat
  pg_pages :: int

record list_response =
  results :: nat
  pagination :: pagination
  data_recipes :: "recipe_doc list"

text \<open>\<open>skip(n).limit(m)\<close> on the ordered matches. The store refuses a negative skip; a
  negative limit counts as its absolute value.\<close>

definition skipLimit :: "int \<Rightarrow> int \<Rightarrow> recipe_doc list \<Rightarrow> js_error + recipe_doc list" where
  "skipLimit n m xs =
     (if n < 0 then Inl StoreError else Inr (take (nat \<bar>m\<bar>) (drop (nat n) xs)))"

text \<open>When the query is executed its conditions are cast to the types of the schema: a
  bound on \<open>prepTime\<close> that is NaN fails the cast.\<close>

definition castFails :: "jobject \<Rightarrow> bool" where
  "castFails conds =
     (case map_of conds ''prepTime'' of
        Some (JObj ops) \<Rightarrow> map_of ops ''$lte'' = Some JNaN
      | _ \<Rightarrow> False)"

text \<open>\<open>getAllRecipes\<close>. Field selection and population change the shape of the returned
  documents, not which documents are returned, and are left out.\<close>

definition getAllRecipes ::
  "(string \<Rightarrow> json \<Rightarrow> recipe_doc \<Rightarrow> bool) \<Rightarrow> db \<Rightarrow> user_doc option \<Rightarrow> jobject \<Rightarrow> js_error + list_response" where
  "getAllRecipes ext d caller q =
     (case listConditions caller q of
        Inl e \<Rightarrow> Inl e
      | Inr conds \<Rightarrow>
          (case (if truthyParam (map_of q ''sort'')
                 then map_sum id (intercalate '' '') (splitParam (map_of q ''sort''))
                 else Inr ''-createdAt'') of
             Inl e \<Rightarrow> Inl e
           | Inr sortBy \<Rightarrow>
               (case (if truthyParam (map_of q ''fields'')
                      then splitParam (map_of q ''fields'') else Inr []) of
                  Inl e \<Rightarrow> Inl e
                | Inr selected \<Rightarrow>
                    (let page = parseIntOr (map_of q ''page'') 1;
                         limit = parseIntOr (map_of q ''limit'') 12;
                         skip = (page - 1) * limit
                     in case (if castFails conds then Inl CastError
                              else skipLimit skip limit
                                     (sortRecipes sortBy (filter (matchesFilter ext conds) (recipes d)))) of
                          Inl e \<Rightarrow> Inl e
                        | Inr found \<Rightarrow>
                            (let total = countDocuments ext d (mergeObj [] (baseFilter q))
                             in Inr \<lparr>results = length found,
                                     pagination = \<lparr>pg_page = page, pg_limit = limit, pg_total = total,
                                                   pg_pages = \<lceil>(of_nat total :: rat) / of_int limit\<rceil>\<rparr>,
                                     data_recipes = found\<rparr>)))))"

section \<open>Authentication middleware\<close>

record request =
  authorization :: "string option"
  cookie_jwt :: "string option"

record decoded_token =
  token_id :: oid
  iat :: nat

datatype verify_error = JsonWebTokenError | TokenExpiredError | OtherVerifyError

definition startsWith :: "string \<Rightarrow> string \<Rightarrow> bool" where
  "startsWith s p = (take (length p) s = p)"

text \<open>Step 1 of \<open>protect\<close>: the token from the header or from the cookie.\<close>

definition extractToken :: "request \<Rightarrow> string option" where
  "extractToken req =
     (if truthy (authorization req) \<and> startsWith (the (authorization req)) ''Bearer''
      then (case splitOn CHR '' '' (the (authorization req)) of
              a # t # _ \<Rightarrow> Some t
            | _ \<Rightarrow> None)
      else if truthy (cookie_jwt req) then cookie_jwt req
      else None)"

text \<open>Modelled from the spec: the User model, with its virtual \<open>isLocked\<close>, is not among the
  sources. The spec: the account is currently locked, the lock state derived from a
  lock-until timestamp.\<close>

definition isLocked :: "nat \<Rightarrow> user_doc \<Rightarrow> bool" where
  "isLocked now u = (case lockUntil u of None \<Rightarrow> False | Some t \<Rightarrow> now < t)"

text \<open>Modelled from the spec: the User model, with its method \<open>changedPasswordAfter\<close>, is not
  among the sources. The spec: the account's password was changed at a time after the
  token was issued (token issuance timestamp compared to password-change timestamp).\<close>

definition changedPasswordAfter :: "user_doc \<Rightarrow> nat \<Rightarrow> bool" where
  "changedPasswordAfter u tokenIat =
     (case passwordChangedAt u of None \<Rightarrow> False | Some t \<Rightarrow> tokenIat < t)"

text \<open>\<open>protect\<close>. \<open>verify\<close> is \<open>jwt.verify\<close> with the server's secret, \<open>now\<close> the clock.\<close>

definition protect ::
  "(string \<Rightarrow> verify_error + decoded_token) \<Rightarrow> nat \<Rightarrow> db \<Rightarrow> request \<Rightarrow> AppError + user_doc" where
  "protect verify now d req =
     (if \<not> truthy (extractToken req)
      then Inl (AppError ''You are not logged in! Please log in to get access.'' 401)
      else
        (case verify (the (extractToken req)) of
           Inl JsonWebTokenError \<Rightarrow> Inl (AppError ''Invalid token. Please log in again!'' 401)
         | Inl TokenExpiredError \<Rightarrow> Inl (AppError ''Your token has expired! Please log in again.'' 401)
         | Inl OtherVerifyError \<Rightarrow> Inl (AppError ''Token verification failed'' 401)
         | Inr decoded \<Rightarrow>
             (case findUserById d (token_id decoded) of
                None \<Rightarrow> Inl (AppError ''The user belonging to this token does no longer exist.'' 401)
              | Some currentUser \<Rightarrow>
                  if accountStatus currentUser \<noteq> ''active''
                  then Inl (AppError ''Your account is not active. Please contact support.'' 403)
                  else if isLocked now currentUser
                  then Inl (AppError ''Your account is temporarily locked. Please try again later.'' 423)
                  else if changedPasswordAfter currentUser (iat decoded)
                  then Inl (AppError ''User recently changed password! Please log in again.'' 401)
                  else Inr currentUser)))"

section \<open>The slug derivation in the words of the specification\<close>

text \<open>Following the spec's words: a run of characters of the class becomes one hyphen
  (whitespace runs are converted to hyphens, repeated hyphens are collapsed).\<close>

fun runsToHyphen :: "(char \<Rightarrow> bool) \<Rightarrow> string \<Rightarrow> string" where
  "runsToHyphen P (a # b # cs) =
     (if P a \<and> P b then runsToHyphen P (b # cs)
      else (if P a then CHR ''-'' else a) # runsToHyphen P (b # cs))"
| "runsToHyphen P [a] = [if P a then CHR ''-'' else a]"
| "runsToHyphen P [] = []"

text \<open>Following the spec's words: the name lowercased, characters that are not
  alphanumerics, spaces or hyphens stripped, whitespace runs converted to hyphens, repeated
  hyphens collapsed.\<close>

definition slugOfName :: "string \<Rightarrow> string" where
  "slugOfName n =
     runsToHyphen (\<lambda>c. c = CHR ''-'')
       (runsToHyphen isSpace
         (filter (\<lambda>c. isLowerAlnum c \<or> isSpace c \<or> c = CHR ''-'') (map toLowerChar n)))"

section \<open>Example data\<close>

definition ragu :: recipe_doc where
  "ragu = \<lparr>recipe_id = 1, title = ''Ragu'', prepTime = 10, cookTime = 20, totalTime = Some 30,
            category = 10, cuisine = ''italian'', difficulty = ''beginner'',
            dietaryRestrictions = [], ratings = [], averageRating = 0, totalRatings = 0,
            bookmarks = [3], author = 2, status = ''published'', visibility = ''public'',
            views = 0, createdAt = 100\<rparr>"

definition mains :: category_doc where
  "mains = \<lparr>category_id = 10, name = ''Mains'', slug = Some ''mains'', code = ''MAINS'',
             parent = None, children = [], level = 0, path = None, recipeCount = 1,
             modifiedPaths = []\<rparr>"

definition chef :: user_doc where
  "chef = \<lparr>user_id = 2, role = ''chef'', accountStatus = ''active'', lockUntil = None,
            passwordChangedAt = None\<rparr>"

definition diner :: user_doc where
  "diner = \<lparr>user_id = 5, role = ''user'', accountStatus = ''active'', lockUntil = None,
             passwordChangedAt = Some 1000\<rparr>"

definition guest :: user_doc where
  "guest = \<lparr>user_id = 6, role = ''user'', accountStatus = ''active'', lockUntil = None,
             passwordChangedAt = None\<rparr>"

definition kitchen :: db where
  "kitchen = \<lparr>recipes = [ragu], categories = [mains], users = [chef, diner, guest]\<rparr>"

definition boasted :: recipe_doc where
  "boasted = ragu\<lparr>recipe_id := 7, averageRating := 9 / 2, totalRatings := 10\<rparr>"

definition rated :: recipe_doc where
  "rated = ragu\<lparr>ratings := [\<lparr>user = 5, rating = 4, review = None\<rparr>,
                             \<lparr>user = 6, rating = 5, review = None\<rparr>,
                             \<lparr>user = 8, rating = 5, review = None\<rparr>]\<rparr>"

definition quicker :: recipe_body where
  "quicker = \<lparr>b_title = Some ''Ragu'', b_prepTime = Some 15, b_cookTime = Some 20,
               b_totalTime = None, b_category = Some 10, b_status = None, b_visibility = None\<rparr>"

definition starters :: category_doc where
  "starters = \<lparr>category_id = 20, name = ''Starters'', slug = Some ''starters'', code = ''START'',
                parent = None, children = [21], level = 0, path = None, recipeCount = 0,
                modifiedPaths = []\<rparr>"

definition soups :: category_doc where
  "soups = \<lparr>category_id = 21, name = ''Soups'', slug = Some ''soups'', code = ''SOUPS'',
             parent = Some 20, children = [], level = 1, path = Some ''soups'', recipeCount = 0,
             modifiedPaths = []\<rparr>"

definition pantry :: db where
  "pantry = \<lparr>recipes = [ragu], categories = [mains, starters, soups], users = [chef, diner, guest]\<rparr>"

definition admin :: user_doc where
  "admin = \<lparr>user_id = 9, role = ''admin'', accountStatus = ''active'', lockUntil = None,
             passwordChangedAt = None\<rparr>"

definition verifyAt :: "nat \<Rightarrow> string \<Rightarrow> verify_error + decoded_token" where
  "verifyAt t tok = (if tok = ''t5'' then Inr \<lparr>token_id = 5, iat = t\<rparr> else Inl JsonWebTokenError)"

definition bearer :: request where
  "bearer = \<lparr>authorization = Some ''Bearer t5'', cookie_jwt = None\<rparr>"

definition draftPie :: recipe_doc where
  "draftPie = ragu\<lparr>recipe_id := 2, title := ''Pie'', status := ''draft'', createdAt := 200\<rparr>"

definition secretStew :: recipe_doc where
  "secretStew = ragu\<lparr>recipe_id := 3, title := ''Stew'', visibility := ''private'', createdAt := 300\<rparr>"

definition tart :: recipe_doc where
  "tart = ragu\<lparr>recipe_id := 4, title := ''Tart'', createdAt := 400\<rparr>"

definition larder :: db where
  "larder = \<lparr>recipes = [ragu, draftPie, secretStew, tart], categories = [mains],
              users = [chef, diner, guest]\<rparr>"

definition anyExt :: "string \<Rightarrow> json \<Rightarrow> recipe_doc \<Rightarrow> bool" where
  "anyExt k v r = True"

definition dips :: category_body where
  "dips = \<lparr>cb_name = Some ''Sauces & Dips'', cb_slug = None, cb_code = Some ''SAUCE'',
            cb_parent = None\<rparr>"

definition bisques :: category_doc where
  "bisques = \<lparr>category_id = 40, name = ''Bisques'', slug = Some ''bisques'', code = ''BISQ'',
               parent = Some 21, children = [], level = 0, path = None, recipeCount = 0,
               modifiedPaths = [''name'', ''slug'', ''code'', ''parent'']\<rparr>"

definition salads :: category_doc where
  "salads = bisques\<lparr>category_id := 41, name := ''Salads'', slug := Some ''salads'',
                     parent := Some 20\<rparr>"

definition uprooted :: category_doc where
  "uprooted = soups\<lparr>parent := None, modifiedPaths := [''parent'']\<rparr>"

definition underMains :: category_body where
  "underMains = \<lparr>cb_name = None, cb_slug = None, cb_code = None, cb_parent = Some (Some 10)\<rparr>"

definition abyss :: category_doc where
  "abyss = mains\<lparr>category_id := 50, name := ''Abyss'', slug := Some ''abyss'', code := ''ABYSS'',
                 level := 5, path := Some ''deep/abyss''\<rparr>"

definition kraken :: category_doc where
  "kraken = bisques\<lparr>category_id := 51, parent := Some 50\<rparr>"

definition trench :: db where
  "trench = \<lparr>recipes = [], categories = [mains, abyss], users = [admin]\<rparr>"

section \<open>The store: lookups after a write\<close>

lemma find_Some_holds: "find P xs = Some x \<Longrightarrow> P x"
  by (induction xs) (auto split: if_splits)

lemma find_Some_mem: "find P xs = Some x \<Longrightarrow> x \<in> set xs"
  by (induction xs) (auto split: if_splits)

lemma find_map_replace:
  assumes "find (\<lambda>x. key x = i) xs = Some r" and "key r' = i"
  shows "find (\<lambda>x. key x = i) (map (\<lambda>x. if key x = i then r' else x) xs) = Some r'"
  using assms by (induction xs) (auto split: if_splits)

lemma findRecipeById_id: "findRecipeById d i = Some r \<Longrightarrow> recipe_id r = i"
  unfolding findRecipeById_def by (rule find_Some_holds)

lemma findRecipeById_storeRecipe:
  assumes "findRecipeById d i = Some r" and "recipe_id r' = i"
  shows "findRecipeById (storeRecipe d r') i = Some r'"
proof -
  have ex: "list_ex (\<lambda>x. recipe_id x = recipe_id r') (recipes d)"
    using assms find_Some_mem[of "\<lambda>x. recipe_id x = i" "recipes d" r]
      find_Some_holds[of "\<lambda>x. recipe_id x = i" "recipes d" r]
    unfolding findRecipeById_def list_ex_iff by auto
  show ?thesis
    using assms ex find_map_replace[of recipe_id i "recipes d" r r']
    by (simp add: findRecipeById_def storeRecipe_def)
qed

lemma recipePreSave_fields:
  "recipe_id (recipePreSave r) = recipe_id r"
  "ratings (recipePreSave r) = ratings r"
  "bookmarks (recipePreSave r) = bookmarks r"
  "author (recipePreSave r) = author r"
  "prepTime (recipePreSave r) = prepTime r"
  "cookTime (recipePreSave r) = cookTime r"
  by (simp_all add: recipePreSave_def averageRatingHook_def totalTimeHook_def)

section \<open>Bookmarks\<close>

lemma toggleBookmark_found:
  assumes "findRecipeById d i = Some r"
  shows "toggleBookmark d i u =
           (storeRecipe d (recipePreSave (r\<lparr>bookmarks :=
                (if user_id u \<in> set (bookmarks r) then filter (\<lambda>b. b \<noteq> user_id u) (bookmarks r)
                 else bookmarks r @ [user_id u])\<rparr>)),
            Inr \<lparr>bookmarked = (user_id u \<notin> set (bookmarks r)),
                 bookmarkCount = length (if user_id u \<in> set (bookmarks r)
                    then filter (\<lambda>b. b \<noteq> user_id u) (bookmarks r)
                    else bookmarks r @ [user_id u])\<rparr>)"
  using assms
  by (simp add: toggleBookmark_def Let_def includesId_def list_ex_iff pull_def push_def
      saveRecipe_def recipePreSave_fields)

lemma count_list_filter_neq: "count_list (filter (\<lambda>b. b \<noteq> u) bs) u = 0"
  by (induction bs) auto

lemma count_list_notin: "u \<notin> set bs \<Longrightarrow> count_list bs u = 0"
  by (induction bs) auto

text \<open>
  C10. For a recipe \<open>r\<close> found under the id and a user \<open>u\<close>, \<open>toggleBookmark\<close> removes \<open>u\<close> from
  the bookmarks if \<open>u\<close> is a member and adds \<open>u\<close> otherwise, and answers \<open>bookmarked\<close> with the
  negation of the prior membership. After the call \<open>u\<close> occurs at most once, and a list
  without repetitions stays without repetitions. A second call by the same user answers
  with the prior membership and leaves the stored bookmarks equal, as a set, to the
  original ones.
\<close>

theorem toggleBookmark_involution:
  assumes "findRecipeById d i = Some r"
  shows "\<exists>d1 r1 d2 r2.
           toggleBookmark d i u =
             (d1, Inr \<lparr>bookmarked = (user_id u \<notin> set (bookmarks r)),
                       bookmarkCount = length (bookmarks r1)\<rparr>)
         \<and> findRecipeById d1 i = Some r1
         \<and> bookmarks r1 = (if user_id u \<in> set (bookmarks r)
                           then filter (\<lambda>b. b \<noteq> user_id u) (bookmarks r)
                           else bookmarks r @ [user_id u])
         \<and> count_list (bookmarks r1) (user_id u) \<le> 1
         \<and> (distinct (bookmarks r) \<longrightarrow> distinct (bookmarks r1))
         \<and> toggleBookmark d1 i u =
             (d2, Inr \<lparr>bookmarked = (user_id u \<in> set (bookmarks r)),
                       bookmarkCount = length (bookmarks r2)\<rparr>)
         \<and> findRecipeById d2 i = Some r2
         \<and> set (bookmarks r2) = set (bookmarks r)
         \<and> (distinct (bookmarks r) \<longrightarrow> distinct (bookmarks r2))"
proof -
  let ?u = "user_id u"
  let ?b1 = "if ?u \<in> set (bookmarks r) then filter (\<lambda>b. b \<noteq> ?u) (bookmarks r)
             else bookmarks r @ [?u]"
  let ?r1 = "recipePreSave (r\<lparr>bookmarks := ?b1\<rparr>)"
  let ?d1 = "storeRecipe d ?r1"
  let ?b2 = "if ?u \<in> set (bookmarks ?r1) then filter (\<lambda>b. b \<noteq> ?u) (bookmarks ?r1)
             else bookmarks ?r1 @ [?u]"
  let ?r2 = "recipePreSave (?r1\<lparr>bookmarks := ?b2\<rparr>)"
  let ?d2 = "storeRecipe ?d1 ?r2"
  have id: "recipe_id r = i" using assms by (rule findRecipeById_id)
  have b1: "bookmarks ?r1 = ?b1" by (simp add: recipePreSave_fields)
  have mem1: "(?u \<in> set (bookmarks ?r1)) = (?u \<notin> set (bookmarks r))"
    unfolding b1 by auto
  have t1: "toggleBookmark d i u =
              (?d1, Inr \<lparr>bookmarked = (?u \<notin> set (bookmarks r)),
                         bookmarkCount = length (bookmarks ?r1)\<rparr>)"
    using toggleBookmark_found[OF assms, of u] unfolding b1 by simp
  have f1: "findRecipeById ?d1 i = Some ?r1"
    using assms id by (intro findRecipeById_storeRecipe) (simp_all add: recipePreSave_fields)
  have c1: "count_list (bookmarks ?r1) ?u \<le> 1"
    unfolding b1 by (simp add: count_list_filter_neq count_list_notin)
  have dist1: "distinct (bookmarks r) \<longrightarrow> distinct (bookmarks ?r1)"
    unfolding b1 by simp
  have b2: "bookmarks ?r2 = ?b2" by (simp add: recipePreSave_fields)
  have t2: "toggleBookmark ?d1 i u =
              (?d2, Inr \<lparr>bookmarked = (?u \<in> set (bookmarks r)),
                         bookmarkCount = length (bookmarks ?r2)\<rparr>)"
    using toggleBookmark_found[OF f1, of u] mem1 unfolding b2 by simp
  have f2: "findRecipeById ?d2 i = Some ?r2"
    using f1 id by (intro findRecipeById_storeRecipe) (simp_all add: recipePreSave_fields)
  have s2: "set (bookmarks ?r2) = set (bookmarks r)"
    by (auto simp: recipePreSave_fields)
  have dist2: "distinct (bookmarks r) \<longrightarrow> distinct (bookmarks ?r2)"
    by (auto simp: recipePreSave_fields)
  show ?thesis
    using t1 f1 b1 c1 dist1 t2 f2 s2 dist2 by blast
qed

theorem toggleBookmark_involution_witness:
  "findRecipeById kitchen 1 = Some ragu \<and> distinct (bookmarks ragu)
   \<and> (\<exists>d1 r1 d2 r2.
         toggleBookmark kitchen 1 diner = (d1, Inr \<lparr>bookmarked = True, bookmarkCount = 2\<rparr>)
       \<and> findRecipeById d1 1 = Some r1 \<and> bookmarks r1 = [3, 5] \<and> distinct (bookmarks r1)
       \<and> toggleBookmark d1 1 diner = (d2, Inr \<lparr>bookmarked = False, bookmarkCount = 1\<rparr>)
       \<and> findRecipeById d2 1 = Some r2 \<and> set (bookmarks r2) = {3} \<and> distinct (bookmarks r2))"
proof -
  have h: "findRecipeById kitchen 1 = Some ragu"
    by (simp add: findRecipeById_def kitchen_def ragu_def)
  have b: "bookmarks ragu = [3]" "user_id diner = 5"
    by (simp_all add: ragu_def diner_def)
  from toggleBookmark_involution[OF h, of diner] obtain d1 r1 d2 r2 where
    t1: "toggleBookmark kitchen 1 diner =
           (d1, Inr \<lparr>bookmarked = (user_id diner \<notin> set (bookmarks ragu)),
                     bookmarkCount = length (bookmarks r1)\<rparr>)"
    and f1: "findRecipeById d1 1 = Some r1"
    and b1: "bookmarks r1 = (if user_id diner \<in> set (bookmarks ragu)
                            then filter (\<lambda>b. b \<noteq> user_id diner) (bookmarks ragu)
                            else bookmarks ragu @ [user_id diner])"
    and dist1: "distinct (bookmarks ragu) \<longrightarrow> distinct (bookmarks r1)"
    and t2: "toggleBookmark d1 1 diner =
           (d2, Inr \<lparr>bookmarked = (user_id diner \<in> set (bookmarks ragu)),
                     bookmarkCount = length (bookmarks r2)\<rparr>)"
    and f2: "findRecipeById d2 1 = Some r2"
    and s2: "set (bookmarks r2) = set (bookmarks ragu)"
    and dist2: "distinct (bookmarks ragu) \<longrightarrow> distinct (bookmarks r2)"
    by blast
  have l2: "length (bookmarks r2) = 1"
    using s2 dist2 distinct_card[of "bookmarks r2"] by (simp add: b)
  show ?thesis
    using h t1 f1 b1 dist1 t2 f2 s2 dist2 l2 by (simp add: b)
qed

section \<open>Ratings: one entry per user\<close>

lemma pushRating_own:
  "filter (\<lambda>e. user e = u) (ratings (pushRating r u v rv)) = [\<lparr>user = u, rating = v, review = rv\<rparr>]"
  by (simp add: pushRating_def)

lemma pushRating_distinct:
  "distinct (map user (ratings r)) \<Longrightarrow> distinct (map user (ratings (pushRating r u v rv)))"
  by (auto simp: pushRating_def distinct_map_filter)

lemma pushRating_users:
  "user ` set (ratings (pushRating r u v rv)) = insert u (user ` set (ratings r))"
  by (auto simp: pushRating_def)

lemma pushRating_fields:
  "recipe_id (pushRating r u v rv) = recipe_id r"
  "author (pushRating r u v rv) = author r"
  "ratings (pushRating r u v rv) \<noteq> []"
  by (simp_all add: pushRating_def)

lemma recipePreSave_totalRatings:
  "ratings r \<noteq> [] \<Longrightarrow> totalRatings (recipePreSave r) = length (ratings r)"
  by (simp add: recipePreSave_def averageRatingHook_def totalTimeHook_def)

lemma rateRecipe_accepted:
  assumes "findRecipeById d i = Some r" and "author r \<noteq> user_id u"
  shows "rateRecipe d i u v rv =
           (storeRecipe d (recipePreSave (pushRating r (user_id u) v rv)),
            Inr \<lparr>resp_averageRating = averageRating (recipePreSave (pushRating r (user_id u) v rv)),
                 resp_totalRatings = totalRatings (recipePreSave (pushRating r (user_id u) v rv))\<rparr>)"
  using assms by (simp add: rateRecipe_def addRating_def saveRecipe_def Let_def)

lemma rateRecipe_own:
  assumes "findRecipeById d i = Some r" and "author r = user_id u"
  shows "rateRecipe d i u v rv = (d, Inl (AppError ''You cannot rate your own recipe'' 400))"
  using assms by (simp add: rateRecipe_def)

lemma rateAll_invariant:
  assumes "findRecipeById d i = Some r"
    and "distinct (map user (ratings r))"
    and "totalRatings r = length (ratings r)"
  shows "\<exists>r'. findRecipeById (rateAll d i subs) i = Some r'
            \<and> author r' = author r
            \<and> distinct (map user (ratings r'))
            \<and> totalRatings r' = length (ratings r')
            \<and> user ` set (ratings r') =
                user ` set (ratings r)
                \<union> set (filter (\<lambda>x. x \<noteq> author r) (map (\<lambda>s. user_id (fst s)) subs))"
  using assms
proof (induction subs arbitrary: d r)
  case Nil
  then show ?case by simp
next
  case (Cons s subs)
  obtain u v rv where s: "s = (u, v, rv)" by (cases s)
  show ?case
  proof (cases "author r = user_id u")
    case True
    have step: "fst (rateRecipe d i u v rv) = d"
      using rateRecipe_own[OF Cons.prems(1) True] by simp
    from Cons.IH[OF Cons.prems] obtain r' where
      "findRecipeById (rateAll d i subs) i = Some r'" "author r' = author r"
      "distinct (map user (ratings r'))" "totalRatings r' = length (ratings r')"
      "user ` set (ratings r') = user ` set (ratings r)
         \<union> set (filter (\<lambda>x. x \<noteq> author r) (map (\<lambda>s. user_id (fst s)) subs))"
      by blast
    then show ?thesis using True by (simp add: s step)
  next
    case False
    let ?r1 = "recipePreSave (pushRating r (user_id u) v rv)"
    have id: "recipe_id r = i" using Cons.prems(1) by (rule findRecipeById_id)
    have step: "fst (rateRecipe d i u v rv) = storeRecipe d ?r1"
      using rateRecipe_accepted[OF Cons.prems(1) False] by simp
    have f1: "findRecipeById (storeRecipe d ?r1) i = Some ?r1"
      using Cons.prems(1) id
      by (intro findRecipeById_storeRecipe) (simp_all add: recipePreSave_fields pushRating_fields)
    have d1: "distinct (map user (ratings ?r1))"
      using Cons.prems(2) by (simp add: recipePreSave_fields pushRating_distinct)
    have t1: "totalRatings ?r1 = length (ratings ?r1)"
      by (simp add: recipePreSave_fields recipePreSave_totalRatings pushRating_fields)
    have a1: "author ?r1 = author r"
      by (simp add: recipePreSave_fields pushRating_fields)
    have u1: "user ` set (ratings ?r1) = insert (user_id u) (user ` set (ratings r))"
      by (simp add: recipePreSave_fields pushRating_users)
    from Cons.IH[OF f1 d1 t1] obtain r' where
      "findRecipeById (rateAll (storeRecipe d ?r1) i subs) i = Some r'" "author r' = author ?r1"
      "distinct (map user (ratings r'))" "totalRatings r' = length (ratings r')"
      "user ` set (ratings r') = user ` set (ratings ?r1)
         \<union> set (filter (\<lambda>x. x \<noteq> author ?r1) (map (\<lambda>s. user_id (fst s)) subs))"
      by blast
    then show ?thesis using False by (auto simp: s step a1 u1)
  qed
qed


text \<open>
  C3. After \<open>addRating\<close> for a user the ratings list holds exactly one entry of that user,
  the one just submitted; the same holds for the stored recipe after an accepted
  \<open>rateRecipe\<close>. For a stored recipe with one entry per user and \<open>totalRatings\<close> equal to the
  number of entries, after any sequence of rating requests the stored recipe again has one
  entry per user, and the number of entries, which is \<open>totalRatings\<close>, is the number of
  distinct users who rated it (those it had, and those of the accepted requests).
\<close>

theorem rateRecipe_one_rating_per_user:
  assumes "findRecipeById d i = Some r"
  shows "filter (\<lambda>e. user e = uid) (ratings (snd (addRating d0 r0 uid v rv)))
           = [\<lparr>user = uid, rating = v, review = rv\<rparr>]
       \<and> (author r \<noteq> user_id u \<longrightarrow>
            (\<exists>d' r'. rateRecipe d i u v rv =
                        (d', Inr \<lparr>resp_averageRating = averageRating r',
                                  resp_totalRatings = totalRatings r'\<rparr>)
                   \<and> findRecipeById d' i = Some r'
                   \<and> filter (\<lambda>e. user e = user_id u) (ratings r')
                       = [\<lparr>user = user_id u, rating = v, review = rv\<rparr>]))
       \<and> (distinct (map user (ratings r)) \<and> totalRatings r = length (ratings r) \<longrightarrow>
            (\<exists>r'. findRecipeById (rateAll d i subs) i = Some r'
                 \<and> distinct (map user (ratings r'))
                 \<and> totalRatings r' = length (ratings r')
                 \<and> length (ratings r') =
                     card (user ` set (ratings r)
                           \<union> set (filter (\<lambda>x. x \<noteq> author r) (map (\<lambda>s. user_id (fst s)) subs)))))"
proof (intro conjI impI)
  show "filter (\<lambda>e. user e = uid) (ratings (snd (addRating d0 r0 uid v rv)))
          = [\<lparr>user = uid, rating = v, review = rv\<rparr>]"
    by (simp add: addRating_def saveRecipe_def Let_def recipePreSave_fields pushRating_own)
next
  assume na: "author r \<noteq> user_id u"
  let ?r1 = "recipePreSave (pushRating r (user_id u) v rv)"
  have id: "recipe_id r = i" using assms by (rule findRecipeById_id)
  have f1: "findRecipeById (storeRecipe d ?r1) i = Some ?r1"
    using assms id
    by (intro findRecipeById_storeRecipe) (simp_all add: recipePreSave_fields pushRating_fields)
  have own: "filter (\<lambda>e. user e = user_id u) (ratings ?r1)
               = [\<lparr>user = user_id u, rating = v, review = rv\<rparr>]"
    by (simp add: recipePreSave_fields pushRating_own)
  show "\<exists>d' r'. rateRecipe d i u v rv =
                  (d', Inr \<lparr>resp_averageRating = averageRating r',
                            resp_totalRatings = totalRatings r'\<rparr>)
              \<and> findRecipeById d' i = Some r'
              \<and> filter (\<lambda>e. user e = user_id u) (ratings r')
                  = [\<lparr>user = user_id u, rating = v, review = rv\<rparr>]"
    using rateRecipe_accepted[OF assms na, of v rv] f1 own by blast
next
  assume inv: "distinct (map user (ratings r)) \<and> totalRatings r = length (ratings r)"
  from rateAll_invariant[OF assms, of subs] inv obtain r' where
    f: "findRecipeById (rateAll d i subs) i = Some r'"
    and dist: "distinct (map user (ratings r'))"
    and tot: "totalRatings r' = length (ratings r')"
    and us: "user ` set (ratings r') =
               user ` set (ratings r)
               \<union> set (filter (\<lambda>x. x \<noteq> author r) (map (\<lambda>s. user_id (fst s)) subs))"
    by blast
  have "length (ratings r') = card (user ` set (ratings r'))"
    using dist distinct_card[of "map user (ratings r')"] by simp
  then show "\<exists>r'. findRecipeById (rateAll d i subs) i = Some r'
                 \<and> distinct (map user (ratings r'))
                 \<and> totalRatings r' = length (ratings r')
                 \<and> length (ratings r') =
                     card (user ` set (ratings r)
                           \<union> set (filter (\<lambda>x. x \<noteq> author r) (map (\<lambda>s. user_id (fst s)) subs)))"
    using f dist tot us by auto
qed

theorem rateRecipe_one_rating_per_user_witness:
  "findRecipeById kitchen 1 = Some ragu \<and> author ragu \<noteq> user_id diner
   \<and> distinct (map user (ratings ragu)) \<and> totalRatings ragu = length (ratings ragu)
   \<and> (\<exists>d' r'. rateRecipe kitchen 1 diner 4 None =
                  (d', Inr \<lparr>resp_averageRating = averageRating r',
                            resp_totalRatings = totalRatings r'\<rparr>)
             \<and> findRecipeById d' 1 = Some r'
             \<and> filter (\<lambda>e. user e = 5) (ratings r') = [\<lparr>user = 5, rating = 4, review = None\<rparr>])
   \<and> (\<exists>r'. findRecipeById
               (rateAll kitchen 1 [(diner, 4, None), (guest, 5, Some ''good''), (diner, 2, None),
                                   (chef, 5, None)]) 1 = Some r'
          \<and> totalRatings r' = 2 \<and> length (ratings r') = 2)"
proof -
  have h: "findRecipeById kitchen 1 = Some ragu"
    by (simp add: findRecipeById_def kitchen_def ragu_def)
  have e: "author ragu = 2" "ratings ragu = []" "totalRatings ragu = 0"
    "user_id diner = 5" "user_id guest = 6" "user_id chef = 2"
    by (simp_all add: ragu_def diner_def guest_def chef_def)
  have c: "card (user ` set (ratings ragu)
             \<union> set (filter (\<lambda>x. x \<noteq> author ragu)
                  (map (\<lambda>s. user_id (fst s))
                     [(diner, 4::int, None::string option), (guest, 5, Some ''good''),
                      (diner, 2, None), (chef, 5, None)]))) = 2"
    by (simp add: e card_insert_if)
  note T = rateRecipe_one_rating_per_user[OF h, of 5 kitchen ragu 4 None diner
        "[(diner, 4, None), (guest, 5, Some ''good''), (diner, 2, None), (chef, 5, None)]"]
  have A: "\<exists>d' r'. rateRecipe kitchen 1 diner 4 None =
                  (d', Inr \<lparr>resp_averageRating = averageRating r',
                            resp_totalRatings = totalRatings r'\<rparr>)
             \<and> findRecipeById d' 1 = Some r'
             \<and> filter (\<lambda>e. user e = 5) (ratings r') = [\<lparr>user = 5, rating = 4, review = None\<rparr>]"
    using T by (simp add: e)
  have B: "\<exists>r'. findRecipeById
               (rateAll kitchen 1 [(diner, 4, None), (guest, 5, Some ''good''), (diner, 2, None),
                                   (chef, 5, None)]) 1 = Some r'
          \<and> totalRatings r' = 2 \<and> length (ratings r') = 2"
    using T c by (auto simp add: e simp del: rateAll.simps)
  show ?thesis
    using h A B by (simp add: e del: rateAll.simps)
qed

section \<open>Rating aggregates on save\<close>

lemma find_append_new:
  "\<not> list_ex P xs \<Longrightarrow> P x \<Longrightarrow> find P (xs @ [x]) = Some x"
  by (induction xs) auto

lemma findRecipeById_storeRecipe_own:
  "findRecipeById (storeRecipe d r) (recipe_id r) = Some r"
proof (cases "list_ex (\<lambda>x. recipe_id x = recipe_id r) (recipes d)")
  case True
  then obtain x where "find (\<lambda>x. recipe_id x = recipe_id r) (recipes d) = Some x"
    by (cases "find (\<lambda>x. recipe_id x = recipe_id r) (recipes d)")
       (auto simp: find_None_iff list_ex_iff)
  then show ?thesis
    using True find_map_replace[of recipe_id "recipe_id r" "recipes d" x r]
    by (simp add: findRecipeById_def storeRecipe_def)
next
  case False
  then show ?thesis
    by (simp add: findRecipeById_def storeRecipe_def find_append_new)
qed

lemma totalRating_sum: "foldl (\<lambda>sum e. sum + rating e) a rs = a + sum_list (map rating rs)"
  by (induction rs arbitrary: a) auto

lemma totalRating_sum_list: "totalRating rs = sum_list (map rating rs)"
  by (simp add: totalRating_def totalRating_sum)

text \<open>
  C2 (as amended). For every save of a recipe whose ratings list is not empty, afterwards
  \<open>averageRating\<close> is the mean of the rating values rounded to one decimal place,
  \<open>round(mean * 10) / 10\<close>, and \<open>totalRatings\<close> is the length of the list, whatever
  mutation led to the save. A save of a recipe whose ratings list is empty leaves both
  fields as they were. The list itself is not changed by the save, and the saved document
  is the one found in the store afterwards.
\<close>

theorem save_recomputes_rating_aggregates:
  "(ratings r \<noteq> [] \<longrightarrow>
       averageRating (snd (saveRecipe d r)) =
         of_int (mathRound (of_int (sum_list (map rating (ratings r)))
                            / of_nat (length (ratings r)) * 10)) / 10
     \<and> totalRatings (snd (saveRecipe d r)) = length (ratings r))
 \<and> (ratings r = [] \<longrightarrow>
       averageRating (snd (saveRecipe d r)) = averageRating r
     \<and> totalRatings (snd (saveRecipe d r)) = totalRatings r)
 \<and> ratings (snd (saveRecipe d r)) = ratings r
 \<and> findRecipeById (fst (saveRecipe d r)) (recipe_id r) = Some (snd (saveRecipe d r))"
proof -
  have s: "snd (saveRecipe d r) = recipePreSave r" "fst (saveRecipe d r) = storeRecipe d (recipePreSave r)"
    by (simp_all add: saveRecipe_def Let_def)
  have f: "findRecipeById (storeRecipe d (recipePreSave r)) (recipe_id r) = Some (recipePreSave r)"
    using findRecipeById_storeRecipe_own[of d "recipePreSave r"] by (simp add: recipePreSave_fields)
  show ?thesis
    unfolding s using f
    by (simp add: recipePreSave_def averageRatingHook_def totalTimeHook_def totalRating_sum_list)
qed

theorem save_recomputes_rating_aggregates_witness:
  "ratings rated \<noteq> []
   \<and> averageRating (snd (saveRecipe kitchen rated)) = 47 / 10
   \<and> totalRatings (snd (saveRecipe kitchen rated)) = 3
   \<and> ratings boasted = []
   \<and> averageRating (snd (saveRecipe kitchen boasted)) = 9 / 2
   \<and> totalRatings (snd (saveRecipe kitchen boasted)) = 10"
proof -
  have r: "ratings rated \<noteq> []" "length (ratings rated) = 3"
    "sum_list (map rating (ratings rated)) = 14"
    by (simp_all add: rated_def ragu_def)
  have b: "ratings boasted = []" "averageRating boasted = 9 / 2" "totalRatings boasted = 10"
    by (simp_all add: boasted_def ragu_def)
  have m: "mathRound (140 / 3) = 47"
    by (simp add: mathRound_def floor_eq_iff)
  show ?thesis
    using save_recomputes_rating_aggregates[of rated kitchen]
      save_recomputes_rating_aggregates[of boasted kitchen]
    by (simp add: r b m)
qed


text \<open>
  C2 as stated fails on a save with an empty ratings list: the hook is guarded by
  \<open>ratings.length > 0\<close>, so a recipe that carries ten as \<open>totalRatings\<close> and no rating keeps
  the ten.
\<close>

theorem save_empty_ratings_counterexample:
  "ratings (snd (saveRecipe kitchen boasted)) = []
   \<and> totalRatings (snd (saveRecipe kitchen boasted)) = 10
   \<and> averageRating (snd (saveRecipe kitchen boasted)) = 9 / 2
   \<and> totalRatings (snd (saveRecipe kitchen boasted)) \<noteq> length (ratings (snd (saveRecipe kitchen boasted)))"
  by (simp add: saveRecipe_def Let_def recipePreSave_def averageRatingHook_def totalTimeHook_def
      boasted_def ragu_def)

section \<open>Total time\<close>

lemma saveRecipe_totalTime:
  "totalTime (snd (saveRecipe d r)) = Some (prepTime r + cookTime r)"
  "prepTime (snd (saveRecipe d r)) = prepTime r"
  "cookTime (snd (saveRecipe d r)) = cookTime r"
  by (simp_all add: saveRecipe_def Let_def recipePreSave_def averageRatingHook_def totalTimeHook_def)

lemma saveRecipe_stored:
  "findRecipeById (fst (saveRecipe d r)) (recipe_id r) = Some (snd (saveRecipe d r))"
  using findRecipeById_storeRecipe_own[of d "recipePreSave r"]
  by (simp add: saveRecipe_def Let_def recipePreSave_fields)

text \<open>
  C6. On every save the first hook makes \<open>totalTime\<close> the sum of \<open>prepTime\<close> and \<open>cookTime\<close>
  (the lemma above). The update operation does not save: \<open>updateRecipe\<close> writes the body
  with \<open>findByIdAndUpdate\<close>, so no hook runs. Evaluated on a stored recipe with times 10 and
  20 and total 30, an update of \<open>prepTime\<close> to 15 by the author stores times 15 and 20 and
  leaves the total at 30; a save of the same document would have stored 35.
\<close>

theorem updateRecipe_stale_totalTime:
  "snd (updateRecipe kitchen 1 chef quicker) = Inr (Some (ragu\<lparr>prepTime := 15\<rparr>))
   \<and> findRecipeById (fst (updateRecipe kitchen 1 chef quicker)) 1 = Some (ragu\<lparr>prepTime := 15\<rparr>)
   \<and> totalTime (ragu\<lparr>prepTime := 15\<rparr>) = Some 30
   \<and> prepTime (ragu\<lparr>prepTime := 15\<rparr>) + cookTime (ragu\<lparr>prepTime := 15\<rparr>) = 35
   \<and> totalTime (snd (saveRecipe kitchen (ragu\<lparr>prepTime := 15\<rparr>))) = Some 35"
  by (simp add: updateRecipe_def recipeFindByIdAndUpdate_def applyRecipeBody_def orElse_def
      findRecipeById_def findCategoryById_def storeRecipe_def kitchen_def ragu_def chef_def
      quicker_def mains_def Let_def saveRecipe_def recipePreSave_def averageRatingHook_def
      totalTimeHook_def)

section \<open>Deleting a category\<close>

lemma digitValue_digitChar: "k < 10 \<Longrightarrow> digitValue (digitChar k) = Some k"
  by (simp add: digitValue_def digitChar_def Let_def)

lemma digitsValue_snoc:
  "digitsValue b (ds @ [c]) = digitsValue b ds * b + the (digitValue c)"
  by (simp add: digitsValue_def)

lemma digitsValue_showNat: "digitsValue 10 (showNat n) = n"
proof (induction n rule: showNat.induct)
  case (1 n)
  show ?case
  proof (cases "n < 10")
    case True
    then show ?thesis
      by (subst showNat.simps) (simp add: digitsValue_def digitValue_digitChar)
  next
    case False
    with 1 have "digitsValue 10 (showNat (n div 10)) = n div 10" by simp
    with False show ?thesis
      by (subst showNat.simps) (simp add: digitsValue_snoc digitValue_digitChar)
  qed
qed

text \<open>
  C7 (as amended). For a category found under the id: when at least one recipe references
  it, \<open>deleteCategory\<close> answers with the error of status 400 whose message names the number
  of those recipes (the digits read back give the number); when no recipe references it
  and its children list is not empty, it answers with the error of status 400 and the
  fixed message about subcategories. In both cases the store is returned as it was, and
  the category is still found in it.
\<close>

theorem deleteCategory_refuses:
  assumes "findCategoryById d i = Some c"
  shows "(0 < countRecipesOfCategory d i \<longrightarrow>
            deleteCategory d i u =
              (d, Inl (AppError (''Cannot delete category with ''
                         @ showNat (countRecipesOfCategory d i)
                         @ '' recipes. Please move or delete the recipes first.'') 400))
          \<and> digitsValue 10 (showNat (countRecipesOfCategory d i)) = countRecipesOfCategory d i)
       \<and> (countRecipesOfCategory d i = 0 \<and> children c \<noteq> [] \<longrightarrow>
            deleteCategory d i u =
              (d, Inl (AppError
                 ''Cannot delete category with subcategories. Please delete or move the subcategories first.''
                 400)))
       \<and> (0 < countRecipesOfCategory d i \<or> children c \<noteq> [] \<longrightarrow>
            findCategoryById (fst (deleteCategory d i u)) i = Some c
          \<and> fst (deleteCategory d i u) = d
          \<and> (\<exists>m. snd (deleteCategory d i u) = Inl (AppError m 400)))"
  using assms by (auto simp: deleteCategory_def Let_def digitsValue_showNat)

theorem deleteCategory_refuses_witness:
  "findCategoryById pantry 10 = Some mains \<and> 0 < countRecipesOfCategory pantry 10
   \<and> deleteCategory pantry 10 admin =
        (pantry, Inl (AppError ''Cannot delete category with 1 recipes. Please move or delete the recipes first.'' 400))
   \<and> findCategoryById pantry 20 = Some starters
   \<and> countRecipesOfCategory pantry 20 = 0 \<and> children starters \<noteq> []
   \<and> deleteCategory pantry 20 admin =
        (pantry, Inl (AppError ''Cannot delete category with subcategories. Please delete or move the subcategories first.'' 400))
   \<and> findCategoryById (fst (deleteCategory pantry 20 admin)) 20 = Some starters"
proof -
  have h1: "findCategoryById pantry 10 = Some mains"
    by (simp add: findCategoryById_def pantry_def mains_def)
  have h2: "findCategoryById pantry 20 = Some starters"
    by (simp add: findCategoryById_def pantry_def mains_def starters_def)
  have c1: "countRecipesOfCategory pantry 10 = 1"
    by (simp add: countRecipesOfCategory_def pantry_def ragu_def)
  have c2: "countRecipesOfCategory pantry 20 = 0"
    by (simp add: countRecipesOfCategory_def pantry_def ragu_def)
  have ch: "children starters \<noteq> []" by (simp add: starters_def)
  have s: "showNat 1 = ''1''" by code_simp
  show ?thesis
    using deleteCategory_refuses[OF h1, of admin] deleteCategory_refuses[OF h2, of admin]
      h1 h2 c1 c2 ch s
    by simp
qed

text \<open>
  C7 as stated fails where only subcategories block the deletion: the message of that
  error is a fixed text without any digit, so it names no count.
\<close>

theorem deleteCategory_subcategories_counterexample:
  "findCategoryById pantry 20 = Some starters \<and> children starters = [21]
   \<and> snd (deleteCategory pantry 20 admin) =
        Inl (AppError ''Cannot delete category with subcategories. Please delete or move the subcategories first.'' 400)
   \<and> filter isDigit ''Cannot delete category with subcategories. Please delete or move the subcategories first.'' = []"
  by (simp add: deleteCategory_def findCategoryById_def countRecipesOfCategory_def Let_def
      pantry_def mains_def starters_def ragu_def isDigit_def)

section \<open>Tokens and password changes\<close>

text \<open>
  C4. For a request whose token is present, verifies, and names a user that exists, is
  active and is not locked: \<open>protect\<close> rejects it with status 401 exactly when the user's
  password-change timestamp is later than the token's issued-at timestamp, and otherwise
  accepts it with that user as the principal. A token issued before the change is thus
  rejected, a token issued at or after it is accepted.
\<close>

theorem protect_password_change:
  assumes "extractToken req = Some tok" and "tok \<noteq> []"
    and "verify tok = Inr dec"
    and "findUserById d (token_id dec) = Some u"
    and "accountStatus u = ''active''"
    and "\<not> isLocked now u"
  shows "protect verify now d req =
           (case passwordChangedAt u of
              None \<Rightarrow> Inr u
            | Some t \<Rightarrow> if iat dec < t
                        then Inl (AppError ''User recently changed password! Please log in again.'' 401)
                        else Inr u)
       \<and> ((\<exists>e. protect verify now d req = Inl e \<and> statusCode e = 401)
            = (\<exists>t. passwordChangedAt u = Some t \<and> iat dec < t))"
  using assms
  by (auto simp: protect_def truthy_def changedPasswordAfter_def split: option.splits)

theorem protect_password_change_witness:
  "extractToken bearer = Some ''t5'' \<and> ''t5'' \<noteq> []
   \<and> verifyAt 900 ''t5'' = Inr \<lparr>token_id = 5, iat = 900\<rparr>
   \<and> verifyAt 1000 ''t5'' = Inr \<lparr>token_id = 5, iat = 1000\<rparr>
   \<and> findUserById kitchen 5 = Some diner
   \<and> accountStatus diner = ''active'' \<and> \<not> isLocked 2000 diner
   \<and> passwordChangedAt diner = Some 1000
   \<and> protect (verifyAt 900) 2000 kitchen bearer =
        Inl (AppError ''User recently changed password! Please log in again.'' 401)
   \<and> protect (verifyAt 1000) 2000 kitchen bearer = Inr diner"
proof -
  have t: "extractToken bearer = Some ''t5''"
    by (simp add: extractToken_def bearer_def truthy_def startsWith_def)
  have v: "verifyAt 900 ''t5'' = Inr \<lparr>token_id = 5, iat = 900\<rparr>"
    "verifyAt 1000 ''t5'' = Inr \<lparr>token_id = 5, iat = 1000\<rparr>"
    by (simp_all add: verifyAt_def)
  have f: "findUserById kitchen (token_id \<lparr>token_id = 5, iat = 900\<rparr>) = Some diner"
    "findUserById kitchen (token_id \<lparr>token_id = 5, iat = 1000\<rparr>) = Some diner"
    by (simp_all add: findUserById_def kitchen_def chef_def diner_def)
  have a: "accountStatus diner = ''active''" "\<not> isLocked 2000 diner"
    "passwordChangedAt diner = Some 1000"
    by (simp_all add: diner_def isLocked_def)
  have n: "''t5'' \<noteq> []" by simp
  show ?thesis
    using protect_password_change[of bearer "''t5''" "verifyAt 900" "\<lparr>token_id = 5, iat = 900\<rparr>"
            kitchen diner 2000, OF t n v(1) f(1) a(1) a(2)]
      protect_password_change[of bearer "''t5''" "verifyAt 1000" "\<lparr>token_id = 5, iat = 1000\<rparr>"
            kitchen diner 2000, OF t n v(2) f(2) a(1) a(2)] t v f a
    by simp
qed

section \<open>Listing: the visibility constraint and the total\<close>

lemma map_of_setKey: "map_of (setKey c k v) k' = (if k' = k then Some v else map_of c k')"
  by (induction c k v rule: setKey.induct) auto

lemma map_of_mergeObj_other:
  "k' \<notin> fst ` set src \<Longrightarrow> map_of (mergeObj c src) k' = map_of c k'"
proof (induction src arbitrary: c)
  case Nil
  then show ?case by simp
next
  case (Cons kv src)
  obtain k v where kv: "kv = (k, v)" by (cases kv)
  from Cons.prems kv have ne: "k' \<noteq> k" and rest: "k' \<notin> fst ` set src" by auto
  show ?case
    unfolding kv mergeObj.simps
    by (subst Cons.IH[OF rest]) (simp add: map_of_setKey ne)
qed

lemma map_of_mergeObj_visibility:
  "map_of (mergeObj c [(''status'', JStr a), (''visibility'', JStr b)]) ''status'' = Some (JStr a)"
  "map_of (mergeObj c [(''status'', JStr a), (''visibility'', JStr b)]) ''visibility'' = Some (JStr b)"
  by (simp_all add: map_of_setKey)

lemma filters_keep_key:
  assumes "k' \<noteq> ''$text''" "k' \<noteq> ''dietaryRestrictions''" "k' \<noteq> ''cuisine''"
    "k' \<noteq> ''difficulty''" "k' \<noteq> ''prepTime''" "k' \<noteq> ''category''"
  shows "map_of (searchFilter q c) k' = map_of c k'"
    and "dietaryFilter q c = Inr c' \<Longrightarrow> map_of c' k' = map_of c k'"
    and "map_of (cuisineFilter q c) k' = map_of c k'"
    and "map_of (difficultyFilter q c) k' = map_of c k'"
    and "map_of (prepTimeFilter q c) k' = map_of c k'"
    and "map_of (categoryFilter q c) k' = map_of c k'"
  using assms
  by (auto simp: searchFilter_def dietaryFilter_def cuisineFilter_def difficultyFilter_def
      prepTimeFilter_def categoryFilter_def map_of_setKey split: if_splits sum.splits)

lemma listConditions_keeps_key:
  assumes "k' \<noteq> ''$text''" "k' \<noteq> ''dietaryRestrictions''" "k' \<noteq> ''cuisine''"
    "k' \<noteq> ''difficulty''" "k' \<noteq> ''prepTime''" "k' \<noteq> ''category''"
    and "listConditions caller q = Inr conds"
  shows "map_of conds k' = map_of (visibilityFilter caller (mergeObj [] (baseFilter q))) k'"
proof -
  from assms(7) obtain c where
    d: "dietaryFilter q (searchFilter q (visibilityFilter caller (mergeObj [] (baseFilter q)))) = Inr c"
    and c: "conds = categoryFilter q (prepTimeFilter q (difficultyFilter q (cuisineFilter q c)))"
    by (auto simp: listConditions_def split: sum.splits)
  show ?thesis
    unfolding c
    by (simp only: filters_keep_key(1,3,4,5,6)[OF assms(1-6)] filters_keep_key(2)[OF assms(1-6) d])
qed

lemma listConditions_visibility:
  assumes na: "\<not> isAdmin caller" and lc: "listConditions caller q = Inr conds"
  shows "map_of conds ''status'' = Some (JStr ''published'')"
    and "map_of conds ''visibility'' = Some (JStr ''public'')"
  using na listConditions_keeps_key[OF _ _ _ _ _ _ lc, of "''status''"]
    listConditions_keeps_key[OF _ _ _ _ _ _ lc, of "''visibility''"]
  by (simp_all add: visibilityFilter_def map_of_setKey)

lemma matchesFilter_entry:
  "matchesFilter ext conds r \<Longrightarrow> map_of conds k = Some v \<Longrightarrow> matchKey ext k v r"
  using map_of_SomeD[of conds k v] by (fastforce simp: matchesFilter_def list_all_iff)

lemma set_sortField: "set (sortField f xs) = set xs"
  by (simp add: sortField_def split: list.splits)

lemma set_foldr_sortField: "set (foldr sortField fs xs) = set xs"
  by (induction fs) (simp_all add: set_sortField)

lemma set_sortRecipes: "set (sortRecipes sortBy xs) = set xs"
  unfolding sortRecipes_def by (rule set_foldr_sortField)

lemma skipLimit_subset: "skipLimit n m xs = Inr ys \<Longrightarrow> set ys \<subseteq> set xs"
  by (auto simp: skipLimit_def split: if_splits dest: in_set_takeD in_set_dropD)

lemma getAllRecipes_returned:
  assumes "getAllRecipes ext d caller q = Inr resp"
  shows "\<exists>conds. listConditions caller q = Inr conds
           \<and> set (data_recipes resp) \<subseteq> set (filter (matchesFilter ext conds) (recipes d))"
  using assms
  by (auto simp: getAllRecipes_def Let_def set_sortRecipes
      split: sum.splits if_splits dest!: skipLimit_subset)

text \<open>
  C1. When the caller is absent or is not an admin, every recipe in the list that
  \<open>getAllRecipes\<close> returns has status \<open>published\<close> and visibility \<open>public\<close>, for every query
  object (also one that names \<open>status\<close> or \<open>visibility\<close>), every store and every meaning
  \<open>ext\<close> of the remaining conditions.
\<close>

theorem getAllRecipes_visibility:
  assumes "\<not> isAdmin caller"
    and "getAllRecipes ext d caller q = Inr resp"
    and "r \<in> set (data_recipes resp)"
  shows "status r = ''published'' \<and> visibility r = ''public''"
proof -
  from getAllRecipes_returned[OF assms(2)] assms(3) obtain conds where
    lc: "listConditions caller q = Inr conds" and m: "matchesFilter ext conds r"
    by auto
  have "matchKey ext ''status'' (JStr ''published'') r"
    and "matchKey ext ''visibility'' (JStr ''public'') r"
    using matchesFilter_entry[OF m] listConditions_visibility[OF assms(1) lc] by simp_all
  then show ?thesis by (simp add: matchKey_def)
qed


theorem getAllRecipes_visibility_witness:
  "\<not> isAdmin None
   \<and> getAllRecipes anyExt larder None [(''status'', JStr ''draft''), (''visibility'', JStr ''private'')]
       = Inr \<lparr>results = 2,
              pagination = \<lparr>pg_page = 1, pg_limit = 12, pg_total = 0, pg_pages = 0\<rparr>,
              data_recipes = [tart, ragu]\<rparr>
   \<and> ragu \<in> set [tart, ragu] \<and> status ragu = ''published'' \<and> visibility ragu = ''public''"
proof -
  have na: "\<not> isAdmin None" by (simp add: isAdmin_def)
  have g: "getAllRecipes anyExt larder None [(''status'', JStr ''draft''), (''visibility'', JStr ''private'')]
       = Inr \<lparr>results = 2,
              pagination = \<lparr>pg_page = 1, pg_limit = 12, pg_total = 0, pg_pages = 0\<rparr>,
              data_recipes = [tart, ragu]\<rparr>"
    by code_simp
  have m: "ragu \<in> set (data_recipes \<lparr>results = 2,
              pagination = \<lparr>pg_page = 1, pg_limit = 12, pg_total = 0, pg_pages = 0\<rparr>,
              data_recipes = [tart, ragu]\<rparr>)" by simp
  show ?thesis
    using getAllRecipes_visibility[OF na g m] na g by simp
qed

text \<open>
  C5. The count for the pagination is taken with the filter built from the query string
  alone (line 100), not with the conditions of the query that produced the list. On a
  store with two published public recipes, a draft and a private one: a request without
  parameters and without a caller returns the two recipes and reports a total of 4; the
  request \<open>status=draft&limit=1&page=2\<close> reports a total of 1 and 1 page, and returns a
  recipe on page 2.
\<close>

theorem getAllRecipes_total_counts_base_filter:
  "getAllRecipes anyExt larder None []
     = Inr \<lparr>results = 2,
            pagination = \<lparr>pg_page = 1, pg_limit = 12, pg_total = 4, pg_pages = 1\<rparr>,
            data_recipes = [tart, ragu]\<rparr>
   \<and> listConditions None [] = Inr [(''status'', JStr ''published''), (''visibility'', JStr ''public'')]
   \<and> countDocuments anyExt larder [(''status'', JStr ''published''), (''visibility'', JStr ''public'')] = 2
   \<and> getAllRecipes anyExt larder None
        [(''status'', JStr ''draft''), (''limit'', JStr ''1''), (''page'', JStr ''2'')]
     = Inr \<lparr>results = 1,
            pagination = \<lparr>pg_page = 2, pg_limit = 1, pg_total = 1, pg_pages = 1\<rparr>,
            data_recipes = [ragu]\<rparr>"
  by code_simp

section \<open>Categories: slug, level and path\<close>

lemma replaceRuns_runsToHyphen: "replaceRuns P s = runsToHyphen P s"
proof (induction P s rule: runsToHyphen.induct)
  case (1 P a b cs)
  then show ?case by (cases "P a"; cases "P b") auto
qed auto

lemma set_replaceRuns: "set (replaceRuns P s) \<subseteq> insert CHR ''-'' {c \<in> set s. \<not> P c}"
proof (induction P s rule: replaceRuns.induct)
  case (1 P)
  then show ?case by simp
next
  case (2 P c cs)
  have "set (dropWhile P cs) \<subseteq> set cs" by (rule set_dropWhileD[THEN subsetI])
  with 2 show ?case by (cases "P c") auto
qed

lemma trim_no_space: "\<forall>c\<in>set s. \<not> isSpace c \<Longrightarrow> trim s = s"
proof -
  assume a: "\<forall>c\<in>set s. \<not> isSpace c"
  have d: "dropWhile isSpace xs = xs" if "\<forall>c\<in>set xs. \<not> isSpace c" for xs
    using that by (cases xs) auto
  show ?thesis unfolding trim_def using a by (simp add: d)
qed

lemma hyphen_no_space: "\<not> isSpace CHR ''-''"
  by (simp add: isSpace_def)

lemma generateSlug_chars:
  "\<forall>c\<in>set (generateSlug n). isLowerAlnum c \<or> c = CHR ''-''"
proof -
  let ?f = "filter (\<lambda>c. isLowerAlnum c \<or> isSpace c \<or> c = CHR ''-'') (toLowerCase n)"
  let ?a = "replaceRuns isSpace ?f"
  let ?b = "replaceRuns (\<lambda>c. c = CHR ''-'') ?a"
  have a: "\<forall>c\<in>set ?a. isLowerAlnum c \<or> c = CHR ''-''"
    using set_replaceRuns[of isSpace ?f] by auto
  have b: "\<forall>c\<in>set ?b. isLowerAlnum c \<or> c = CHR ''-''"
    using set_replaceRuns[of "\<lambda>c. c = CHR ''-''" ?a] a by auto
  have ns: "\<forall>c\<in>set ?b. \<not> isSpace c"
    using set_replaceRuns[of "\<lambda>c. c = CHR ''-''" ?a] set_replaceRuns[of isSpace ?f]
      hyphen_no_space by auto
  show ?thesis
    unfolding generateSlug_def trim_no_space[OF ns] by (rule b)
qed

lemma generateSlug_slugOfName: "generateSlug n = slugOfName n"
proof -
  let ?f = "filter (\<lambda>c. isLowerAlnum c \<or> isSpace c \<or> c = CHR ''-'') (toLowerCase n)"
  let ?b = "replaceRuns (\<lambda>c. c = CHR ''-'') (replaceRuns isSpace ?f)"
  have ns: "\<forall>c\<in>set ?b. \<not> isSpace c"
    using set_replaceRuns[of "\<lambda>c. c = CHR ''-''" "replaceRuns isSpace ?f"]
      set_replaceRuns[of isSpace ?f] hyphen_no_space by auto
  show ?thesis
    unfolding generateSlug_def trim_no_space[OF ns] slugOfName_def
    by (simp add: replaceRuns_runsToHyphen toLowerCase_def)
qed


lemma find_map_same_key:
  assumes "\<And>x. key (f x) = key x"
  shows "find (\<lambda>x. key x = i) (map f xs) = map_option f (find (\<lambda>x. key x = i) xs)"
  by (induction xs) (simp_all add: assms)

lemma findCategoryById_storeCategory_own:
  "findCategoryById (storeCategory d c) (category_id c) = Some c"
proof (cases "list_ex (\<lambda>x. category_id x = category_id c) (categories d)")
  case True
  then obtain x where "find (\<lambda>x. category_id x = category_id c) (categories d) = Some x"
    by (cases "find (\<lambda>x. category_id x = category_id c) (categories d)")
       (auto simp: find_None_iff list_ex_iff)
  then show ?thesis
    using True find_map_replace[of category_id "category_id c" "categories d" x c]
    by (simp add: findCategoryById_def storeCategory_def)
next
  case False
  then show ?thesis
    by (simp add: findCategoryById_def storeCategory_def find_append_new)
qed

lemma findCategoryById_childrenHook:
  "findCategoryById d i = Some st \<Longrightarrow>
   \<exists>st'. findCategoryById (childrenHook d doc) i = Some st'
        \<and> slug st' = slug st \<and> level st' = level st \<and> path st' = path st
        \<and> parent st' = parent st \<and> name st' = name st"
proof (cases "parent doc")
  case None
  assume "findCategoryById d i = Some st"
  with None show ?thesis by (simp add: childrenHook_def)
next
  case (Some p)
  assume f: "findCategoryById d i = Some st"
  let ?g = "\<lambda>c. if category_id c = p
                 then c\<lparr>children := addToSet (children c) (category_id doc)\<rparr> else c"
  have "findCategoryById (childrenHook d doc) i = map_option ?g (findCategoryById d i)"
    using find_map_same_key[of category_id ?g i "categories d"]
    by (simp add: childrenHook_def findCategoryById_def Some)
  with f show ?thesis by simp
qed

lemma hooks_keep_id: "category_id (categoryPreSave d c) = category_id c"
  by (simp add: categoryPreSave_def pathHook_def slugHook_def split: option.splits)

lemma pathHook_keeps: "slug (pathHook d c) = slug c" "parent (pathHook d c) = parent c"
  "name (pathHook d c) = name c"
  by (simp_all add: pathHook_def split: option.splits)

lemma slugHook_keeps: "parent (slugHook c) = parent c" "name (slugHook c) = name c"
  "level (slugHook c) = level c" "path (slugHook c) = path c"
  "isModified (slugHook c) p = isModified c p"
  by (simp_all add: slugHook_def isModified_def)


lemma valid_has_slug: "validationErrors c = [] \<Longrightarrow> truthy (slug c)"
  by (auto simp: validationErrors_def split: if_splits)

lemma valid_slugHook: "validationErrors c = [] \<Longrightarrow> slugHook c = c"
  using valid_has_slug[of c] by (simp add: slugHook_def)

lemma saveCategory_requires_slug:
  assumes "\<not> truthy (slug c)"
  shows "saveCategory d c = (d, Inl (ValidationError (validationErrors c)))"
    and "''Category slug is required'' \<in> set (validationErrors c)"
proof -
  show m: "''Category slug is required'' \<in> set (validationErrors c)"
    using assms by (simp add: validationErrors_def)
  then have "validationErrors c \<noteq> []" by auto
  then show "saveCategory d c = (d, Inl (ValidationError (validationErrors c)))"
    by (simp add: saveCategory_def)
qed

lemma saveCategory_stored:
  assumes "validationErrors c = []"
  shows "\<exists>d' st. saveCategory d c = (d', Inr (categoryPreSave d c))
       \<and> findCategoryById d' (category_id c) = Some st
       \<and> slug st = slug c
       \<and> level st = level (pathHook d c)
       \<and> path st = path (pathHook d c)
       \<and> parent st = parent c"
proof -
  let ?c = "categoryPreSave d c"
  have pre: "?c = pathHook d c"
    by (simp add: categoryPreSave_def valid_slugHook[OF assms])
  have "findCategoryById (storeCategory d (?c\<lparr>modifiedPaths := []\<rparr>)) (category_id c)
          = Some (?c\<lparr>modifiedPaths := []\<rparr>)"
    using findCategoryById_storeCategory_own[of d "?c\<lparr>modifiedPaths := []\<rparr>"]
    by (simp add: hooks_keep_id)
  from findCategoryById_childrenHook[OF this, of ?c] obtain st where
    "findCategoryById (childrenHook (storeCategory d (?c\<lparr>modifiedPaths := []\<rparr>)) ?c) (category_id c)
       = Some st"
    "slug st = slug ?c" "level st = level ?c" "path st = path ?c" "parent st = parent ?c"
    by auto
  then show ?thesis
    using assms by (simp add: saveCategory_def Let_def pre pathHook_keeps)
qed

text \<open>
  C9. The hook that derives the slug is a \<open>pre('save')\<close> hook, and the save validates the
  document before it: a category saved without a slug fails the \<open>required\<close> validator
  of \<open>slug\<close> (the two lemmas above), so no derived slug is ever stored. Evaluated on the
  creation of a category from the body \<open>{name: 'Sauces & Dips', code: 'SAUCE'}\<close>: the
  handler ends with the validation error \<open>Category slug is required\<close>, the store is as
  it was and holds no such category; the name is marked modified, and the hook, had it
  run, would have set the slug \<open>sauces-dips\<close>.
\<close>

theorem createCategory_rejects_missing_slug:
  "createCategory pantry admin dips 30
     = (pantry, Inl (Thrown (ValidationError [''Category slug is required''])))
   \<and> findCategoryById (fst (createCategory pantry admin dips 30)) 30 = None
   \<and> isModified (newCategory 30 dips) ''name''
   \<and> slug (slugHook (newCategory 30 dips)) = Some ''sauces-dips''"
  by code_simp

text \<open>
  C8 (as amended). For a save of a category that passes validation and has \<open>parent\<close>
  marked modified, the category stored afterwards has level 0 and its own slug as path
  when it has no parent; and when its parent is found at a level below 5, it has the
  parent's level plus one, with the path \<open>parent.path/slug\<close> when the parent has a
  non-empty path and its own slug alone when the parent has none.
\<close>

theorem saveCategory_level_and_path:
  assumes "validationErrors c = []" and "isModified c ''parent''"
  shows "\<exists>d' c' st. saveCategory d c = (d', Inr c')
       \<and> findCategoryById d' (category_id c) = Some st
       \<and> slug st = slug c \<and> parent st = parent c
       \<and> (parent c = None \<longrightarrow> level st = 0 \<and> path st = slug c)
       \<and> (parent c = Some p \<and> findCategoryById d p = Some par \<and> level par < 5 \<longrightarrow>
             level st = level par + 1
           \<and> path st = (if truthy (path par)
                        then Some (the (path par) @ ''/'' @ the (slug c))
                        else slug c))"
proof -
  from saveCategory_stored[OF assms(1), of d] obtain d' st where
    s: "saveCategory d c = (d', Inr (categoryPreSave d c))"
    and f: "findCategoryById d' (category_id c) = Some st"
    and e: "slug st = slug c" "level st = level (pathHook d c)" "path st = path (pathHook d c)"
       "parent st = parent c"
    by blast
  from valid_has_slug[OF assms(1)] obtain sl where sl: "slug c = Some sl"
    by (cases "slug c") (simp_all add: truthy_def)
  have a: "parent c = None \<longrightarrow> level st = 0 \<and> path st = slug c"
    using assms(2) by (simp add: e pathHook_def)
  have b: "parent c = Some p \<and> findCategoryById d p = Some par \<and> level par < 5 \<longrightarrow>
             level st = level par + 1
           \<and> path st = (if truthy (path par)
                        then Some (the (path par) @ ''/'' @ the (slug c))
                        else slug c)"
    using assms(2)
    by (auto simp: e pathHook_def sl truthy_def template_def split: option.splits)
  show ?thesis
    by (rule exI[of _ d'], rule exI[of _ "categoryPreSave d c"], rule exI[of _ st])
       (use s f e(1) e(4) a b in simp)
qed

theorem saveCategory_level_and_path_witness:
  "validationErrors bisques = [] \<and> isModified bisques ''parent''
   \<and> parent bisques = Some 21 \<and> findCategoryById pantry 21 = Some soups \<and> level soups < 5
   \<and> (\<exists>d' c' st. saveCategory pantry bisques = (d', Inr c')
        \<and> findCategoryById d' 40 = Some st \<and> level st = 2 \<and> path st = Some ''soups/bisques'')
   \<and> validationErrors uprooted = [] \<and> isModified uprooted ''parent'' \<and> parent uprooted = None
   \<and> (\<exists>d' c' st. saveCategory pantry uprooted = (d', Inr c')
        \<and> findCategoryById d' 21 = Some st \<and> level st = 0 \<and> path st = Some ''soups'')"
proof -
  have v: "validationErrors bisques = []" "validationErrors uprooted = []" by code_simp+
  have m: "isModified bisques ''parent''" "isModified uprooted ''parent''" by code_simp+
  have b: "parent bisques = Some 21" "findCategoryById pantry 21 = Some soups" "level soups = 1"
    "path soups = Some ''soups''" "slug bisques = Some ''bisques''" "category_id bisques = 40"
    by code_simp+
  have u: "parent uprooted = None" "slug uprooted = Some ''soups''" "category_id uprooted = 21"
    by code_simp+
  have A: "\<exists>d' c' st. saveCategory pantry bisques = (d', Inr c')
        \<and> findCategoryById d' 40 = Some st \<and> level st = 2 \<and> path st = Some ''soups/bisques''"
    using saveCategory_level_and_path[OF v(1) m(1), of pantry 21 soups] b
    by (simp add: truthy_def) blast
  have B: "\<exists>d' c' st. saveCategory pantry uprooted = (d', Inr c')
        \<and> findCategoryById d' 21 = Some st \<and> level st = 0 \<and> path st = Some ''soups''"
    using saveCategory_level_and_path[OF v(2) m(2), of pantry 0 soups] u
    by simp blast
  show ?thesis using v m b(1,2,3) u(1) A B by simp
qed

text \<open>
  C8 as stated fails for a child of a parent that has no path (a root created without a
  parent never gets one, its \<open>parent\<close> not being marked modified): the stored path of the
  child is its slug alone and contains no separator.
\<close>

theorem saveCategory_pathless_parent_counterexample:
  "validationErrors salads = [] \<and> isModified salads ''parent'' \<and> parent salads = Some 20
   \<and> findCategoryById pantry 20 = Some starters \<and> path starters = None
   \<and> snd (saveCategory pantry salads) = Inr (salads\<lparr>level := 1, path := Some ''salads''\<rparr>)
   \<and> findCategoryById (fst (saveCategory pantry salads)) 41
        = Some (salads\<lparr>level := 1, path := Some ''salads'', modifiedPaths := []\<rparr>)
   \<and> CHR ''/'' \<notin> set ''salads''"
  by code_simp

text \<open>\<open>updateCategory\<close> writes the body with \<open>findByIdAndUpdate\<close> and runs no hook: a root
  moved under another category keeps level 0 and no path.\<close>

lemma updateCategory_keeps_level_path:
  "findCategoryById pantry 20 = Some starters
   \<and> snd (updateCategory pantry 20 admin underMains) = Inr (Some (starters\<lparr>parent := Some 10\<rparr>))
   \<and> findCategoryById (fst (updateCategory pantry 20 admin underMains)) 20
        = Some (starters\<lparr>parent := Some 10\<rparr>)
   \<and> level (starters\<lparr>parent := Some 10\<rparr>) = 0 \<and> path (starters\<lparr>parent := Some 10\<rparr>) = None
   \<and> findCategoryById pantry 10 = Some mains \<and> level mains = 0"
  by code_simp

text \<open>The bound of the schema on \<open>level\<close> is checked before the hook computes the level: a
  child of a category at level 5 is stored at level 6.\<close>

lemma saveCategory_depth_unchecked:
  "validationErrors kraken = []
   \<and> findCategoryById trench 50 = Some abyss \<and> level abyss = 5
   \<and> findCategoryById (fst (saveCategory trench kraken)) 51
        = Some (kraken\<lparr>level := 6, path := Some ''deep/abyss/bisques'', modifiedPaths := []\<rparr>)"
  by code_simp


end
